theory Spec2Isabelle
  imports Complex_Main "HOL-Library.Multiset"
begin

section \<open>Numbers and dates\<close>

text \<open>
  The engine computes with JavaScript numbers. They are modelled as exact rationals:
  rounding, overflow to Infinity and NaN are outside the model. A JavaScript division by
  zero gives NaN or an infinity where HOL gives 0, so the model is the program where no
  divisor is zero: the statements about lots take their quantities positive, and the rate
  is positive on every table that the loaders build. The currency converter is given a
  second time on numbers with Infinity and NaN, which a rate table can hold.

  A \<open>Date\<close> is its time value: milliseconds since 1970-01-01T00:00:00Z, an integer.
  The process's local time zone is taken to have a fixed offset from UTC (no daylight
  saving change), so that \<open>setDate(getDate() + i)\<close> moves a date by exactly \<open>i\<close> times
  24 hours; the offset is taken as 0, so that \<open>new Date(y, m, d)\<close> is midnight UTC.
\<close>

definition msPerDay :: int where
  "msPerDay = 1000 * 60 * 60 * 24"

text \<open>Days since the epoch of a proleptic Gregorian date (month 1..12).\<close>

definition daysFromCivil :: "int \<Rightarrow> int \<Rightarrow> int \<Rightarrow> int" where
  "daysFromCivil y m d =
     (let y' = (if m \<le> 2 then y - 1 else y);
          era = y' div 400;
          yoe = y' - era * 400;
          mp = (m + 9) mod 12;
          doy = (153 * mp + 2) div 5 + d - 1;
          doe = yoe * 365 + yoe div 4 - yoe div 100 + doy
      in era * 146097 + doe - 719468)"

text \<open>\<open>new Date(year, monthIndex, day)\<close>: the month index is 0-based and overflows into
  the year, the day overflows into the following months.\<close>

definition newDate :: "int \<Rightarrow> int \<Rightarrow> int \<Rightarrow> int" where
  "newDate y m0 d =
     (daysFromCivil (y + m0 div 12) (m0 mod 12 + 1) 1 + (d - 1)) * msPerDay"

text \<open>\<open>new Date('YYYY-MM-DD')\<close>, a date-only ISO string: midnight UTC of that day.\<close>

definition isoDate :: "int \<Rightarrow> int \<Rightarrow> int \<Rightarrow> int" where
  "isoDate y m d = daysFromCivil y m d * msPerDay"

text \<open>\<open>date.toISOString().split('T')[0]\<close>: the UTC calendar day of a date, kept as the
  number of that day.\<close>

definition dateKey :: "int \<Rightarrow> int" where
  "dateKey date = date div msPerDay"

text \<open>\<open>d.setDate(d.getDate() + i)\<close> on a copy of the date.\<close>

definition addDays :: "int \<Rightarrow> int \<Rightarrow> int" where
  "addDays date i = date + i * msPerDay"

section \<open>Currency converter\<close>

text \<open>\<open>currencyRates\<close>: a \<open>Map\<close> from the day key to the USD to AUD rate.\<close>

type_synonym rates = "int \<rightharpoonup> rat"

text \<open>
  \<open>getUSDToAUDRate\<close> (main.js): the exact day, else for \<open>i = 1..7\<close> the day \<open>i\<close>
  earlier and then the day \<open>i\<close> later, else 1.5.
\<close>

function nearestLoop :: "rates \<Rightarrow> int \<Rightarrow> nat \<Rightarrow> rat" where
  "nearestLoop t date i =
     (if i \<le> 7 then
        (case t (dateKey (addDays date (- int i))) of
           Some r \<Rightarrow> r
         | None \<Rightarrow>
            (case t (dateKey (addDays date (int i))) of
               Some r \<Rightarrow> r
             | None \<Rightarrow> nearestLoop t date (i + 1)))
      else 3 / 2)"
  by pat_completeness auto
termination
  by (relation "measure (\<lambda>(t, date, i). 8 - i)") auto

definition getUSDToAUDRate :: "rates \<Rightarrow> int \<Rightarrow> rat" where
  "getUSDToAUDRate t date =
     (case t (dateKey date) of
        Some r \<Rightarrow> r
      | None \<Rightarrow> nearestLoop t date 1)"

text \<open>
  \<open>convertCurrency(amount, fromMarket, toCurrency, tradeDate)\<close>. Markets and currency
  codes are the strings of the source.
\<close>

definition convertCurrency :: "rates \<Rightarrow> rat \<Rightarrow> string \<Rightarrow> string \<Rightarrow> int \<Rightarrow> rat" where
  "convertCurrency t amount fromMarket toCurrency tradeDate =
     (let fromCurrency = (if fromMarket = ''AU'' then ''AUD'' else ''USD'');
          targetCurrency = (if toCurrency = ''AU'' then ''AUD''
                            else if toCurrency = ''US'' then ''USD'' else toCurrency)
      in if fromCurrency = targetCurrency then amount
         else
           (let usdToAudRate = getUSDToAUDRate t tradeDate
            in if fromCurrency = ''USD'' \<and> targetCurrency = ''AUD'' then amount * usdToAudRate
               else if fromCurrency = ''AUD'' \<and> targetCurrency = ''USD''
                    then amount / usdToAudRate
               else amount))"

text \<open>
  \<open>getUSDToAUDRate\<close> as server.js has it: the exact day, else a scan over the entries of
  the \<open>Map\<close> in insertion order for the entry nearest in time (\<open>new Date(dateStr)\<close> is
  midnight UTC of the day of the entry) among those at most 7 days away, else 1.5. The
  state of the scan is \<open>None\<close> for \<open>nearestDiff = Infinity, nearestRate = null\<close>;
  \<open>nearestRate || 1.5\<close> also replaces a rate of 0.
\<close>

fun nearestScan :: "(int \<times> rat) list \<Rightarrow> int \<Rightarrow> (int \<times> rat) option \<Rightarrow> (int \<times> rat) option" where
  "nearestScan [] targetTime nearest = nearest"
| "nearestScan ((dateStr, rate) # entries) targetTime nearest =
     (if (of_int \<bar>targetTime - dateStr * msPerDay\<bar> :: rat) / of_int msPerDay \<le> 7 \<and>
         (case nearest of
            None \<Rightarrow> True
          | Some (nearestDiff, nearestRate) \<Rightarrow> \<bar>targetTime - dateStr * msPerDay\<bar> < nearestDiff)
      then nearestScan entries targetTime (Some (\<bar>targetTime - dateStr * msPerDay\<bar>, rate))
      else nearestScan entries targetTime nearest)"

definition getUSDToAUDRateServer :: "(int \<times> rat) list \<Rightarrow> int \<Rightarrow> rat" where
  "getUSDToAUDRateServer entries d =
     (case map_of entries (dateKey d) of
        Some r \<Rightarrow> r
      | None \<Rightarrow>
          (case nearestScan entries d None of
             None \<Rightarrow> 3 / 2
           | Some (nearestDiff, nearestRate) \<Rightarrow> if nearestRate = 0 then 3 / 2 else nearestRate))"

text \<open>
  JavaScript numbers with their values that are not finite. Rounding and the sign of zero
  are left out: a finite number is a rational.
\<close>

datatype jsNumber = NaN | PosInfinity | NegInfinity | Finite rat

text \<open>\<open>x > 0\<close>; false for NaN, so this is also \<open>!isNaN(x) && x > 0\<close>.\<close>

fun jsPositive :: "jsNumber \<Rightarrow> bool" where
  "jsPositive NaN = False"
| "jsPositive PosInfinity = True"
| "jsPositive NegInfinity = False"
| "jsPositive (Finite r) = (0 < r)"

text \<open>\<open>x * y\<close>.\<close>

fun jsTimes :: "jsNumber \<Rightarrow> jsNumber \<Rightarrow> jsNumber" where
  "jsTimes (Finite a) (Finite b) = Finite (a * b)"
| "jsTimes NaN y = NaN"
| "jsTimes x NaN = NaN"
| "jsTimes (Finite a) PosInfinity =
     (if a = 0 then NaN else if 0 < a then PosInfinity else NegInfinity)"
| "jsTimes (Finite a) NegInfinity =
     (if a = 0 then NaN else if 0 < a then NegInfinity else PosInfinity)"
| "jsTimes PosInfinity (Finite b) =
     (if b = 0 then NaN else if 0 < b then PosInfinity else NegInfinity)"
| "jsTimes NegInfinity (Finite b) =
     (if b = 0 then NaN else if 0 < b then NegInfinity else PosInfinity)"
| "jsTimes PosInfinity PosInfinity = PosInfinity"
| "jsTimes PosInfinity NegInfinity = NegInfinity"
| "jsTimes NegInfinity PosInfinity = NegInfinity"
| "jsTimes NegInfinity NegInfinity = PosInfinity"

text \<open>\<open>x / y\<close>; a zero divisor counts as \<open>+0\<close>.\<close>

fun jsDivide :: "jsNumber \<Rightarrow> jsNumber \<Rightarrow> jsNumber" where
  "jsDivide (Finite a) (Finite b) =
     (if b = 0 then (if a = 0 then NaN else if 0 < a then PosInfinity else NegInfinity)
      else Finite (a / b))"
| "jsDivide NaN y = NaN"
| "jsDivide x NaN = NaN"
| "jsDivide (Finite a) PosInfinity = Finite 0"
| "jsDivide (Finite a) NegInfinity = Finite 0"
| "jsDivide PosInfinity (Finite b) = (if 0 \<le> b then PosInfinity else NegInfinity)"
| "jsDivide NegInfinity (Finite b) = (if 0 \<le> b then NegInfinity else PosInfinity)"
| "jsDivide PosInfinity PosInfinity = NaN"
| "jsDivide PosInfinity NegInfinity = NaN"
| "jsDivide NegInfinity PosInfinity = NaN"
| "jsDivide NegInfinity NegInfinity = NaN"

type_synonym jsRates = "int \<rightharpoonup> jsNumber"

text \<open>
  The loaders (\<open>downloadCurrencyData\<close>, \<open>loadCurrencyRatesFromFile\<close>) store a parsed
  row only under \<open>!isNaN(rate) && rate > 0\<close>; a row is the day key and the result of
  \<open>parseFloat\<close>, which is Infinity for the text \<open>Infinity\<close>. Rows whose date does not
  parse are skipped by the loaders and left out here.
\<close>

fun loadRates :: "(int \<times> jsNumber) list \<Rightarrow> jsRates \<Rightarrow> jsRates" where
  "loadRates [] t = t"
| "loadRates ((k, x) # rows) t =
     (if jsPositive x then loadRates rows (t(k \<mapsto> x)) else loadRates rows t)"

text \<open>\<open>getUSDToAUDRate\<close> (main.js) and \<open>convertCurrency\<close> once more, on a table and
  an amount of JavaScript numbers.\<close>

function nearestLoopJS :: "jsRates \<Rightarrow> int \<Rightarrow> nat \<Rightarrow> jsNumber" where
  "nearestLoopJS t d i =
     (if i \<le> 7 then
        (case t (dateKey (addDays d (- int i))) of
           Some r \<Rightarrow> r
         | None \<Rightarrow>
            (case t (dateKey (addDays d (int i))) of
               Some r \<Rightarrow> r
             | None \<Rightarrow> nearestLoopJS t d (i + 1)))
      else Finite (3 / 2))"
  by pat_completeness auto
termination
  by (relation "measure (\<lambda>(t, d, i). 8 - i)") auto

definition getUSDToAUDRateJS :: "jsRates \<Rightarrow> int \<Rightarrow> jsNumber" where
  "getUSDToAUDRateJS t d =
     (case t (dateKey d) of
        Some r \<Rightarrow> r
      | None \<Rightarrow> nearestLoopJS t d 1)"

definition convertCurrencyJS :: "jsRates \<Rightarrow> jsNumber \<Rightarrow> string \<Rightarrow> string \<Rightarrow> int \<Rightarrow> jsNumber" where
  "convertCurrencyJS t a fromMarket toCurrency tradeDate =
     (let fromCurrency = (if fromMarket = ''AU'' then ''AUD'' else ''USD'');
          targetCurrency = (if toCurrency = ''AU'' then ''AUD''
                            else if toCurrency = ''US'' then ''USD'' else toCurrency)
      in if fromCurrency = targetCurrency then a
         else
           (let usdToAudRate = getUSDToAUDRateJS t tradeDate
            in if fromCurrency = ''USD'' \<and> targetCurrency = ''AUD'' then jsTimes a usdToAudRate
               else if fromCurrency = ''AUD'' \<and> targetCurrency = ''USD''
                    then jsDivide a usdToAudRate
               else a))"

section \<open>Symbol decoder\<close>

record optionsInfo =
  underlying :: string
  expiryDate :: int
  optionType :: string
  strikePrice :: rat
  isExpired :: bool

definition isUpperAZ :: "char \<Rightarrow> bool" where
  "isUpperAZ c = (65 \<le> (of_char c :: nat) \<and> (of_char c :: nat) \<le> 90)"

definition isDigit :: "char \<Rightarrow> bool" where
  "isDigit c = (48 \<le> (of_char c :: nat) \<and> (of_char c :: nat) \<le> 57)"

text \<open>\<open>parseInt\<close> and \<open>parseFloat\<close> on a string of decimal digits.\<close>

definition digitsValue :: "string \<Rightarrow> int" where
  "digitsValue ds = foldl (\<lambda>n c. 10 * n + (int (of_char c) - 48)) 0 ds"

text \<open>
  \<open>parseOptionsSymbol\<close>. The pattern \<open>^([A-Z]+)(\d{6})([CP])(\d+)$\<close> has one way to
  match: the letters class and the digits class are disjoint, so the first group is the
  whole run of capital letters at the start, then come exactly six digits, a \<open>C\<close> or a
  \<open>P\<close>, and digits up to the end. \<open>now\<close> is \<open>new Date()\<close> at the call.
\<close>

definition parseOptionsSymbol :: "int \<Rightarrow> string \<Rightarrow> optionsInfo option" where
  "parseOptionsSymbol now symbol =
     (let und = takeWhile isUpperAZ symbol;
          afterUnd = dropWhile isUpperAZ symbol;
          expiryStr = take 6 afterUnd;
          afterExpiry = drop 6 afterUnd
      in case afterExpiry of
           [] \<Rightarrow> None
         | typeChar # strikeStr \<Rightarrow>
            if und \<noteq> [] \<and> length expiryStr = 6 \<and> list_all isDigit expiryStr \<and>
               (typeChar = CHR ''C'' \<or> typeChar = CHR ''P'') \<and>
               strikeStr \<noteq> [] \<and> list_all isDigit strikeStr
            then
              (let expiryYear = 2000 + digitsValue (take 2 expiryStr);
                   expiryMonth = digitsValue (take 2 (drop 2 expiryStr));
                   expiryDay = digitsValue (take 2 (drop 4 expiryStr));
                   expiry = newDate expiryYear (expiryMonth - 1) expiryDay
               in Some \<lparr>underlying = und,
                         expiryDate = expiry,
                         optionType = (if typeChar = CHR ''C'' then ''Call'' else ''Put''),
                         strikePrice = of_int (digitsValue strikeStr) / 1000,
                         isExpired = (expiry < now)\<rparr>)
            else None)"

definition isOption :: "int \<Rightarrow> string \<Rightarrow> bool" where
  "isOption now symbol = (parseOptionsSymbol now symbol \<noteq> None)"

definition getMultiplier :: "int \<Rightarrow> string \<Rightarrow> rat" where
  "getMultiplier now symbol = (if isOption now symbol then 100 else 1)"

section \<open>Trade normalizer\<close>

datatype jsError = TypeError

text \<open>\<open>s.split(c)\<close> for a one-character separator: the pieces between the separators, at
  least one.\<close>

fun splitOn :: "char \<Rightarrow> string \<Rightarrow> string list" where
  "splitOn c [] = [[]]"
| "splitOn c (x # xs) =
     (if x = c then [] # splitOn c xs
      else (case splitOn c xs of
              [] \<Rightarrow> [[x]]
            | p # ps \<Rightarrow> (x # p) # ps))"

text \<open>\<open>s.replace(",", "")\<close>: a string pattern replaces its first occurrence only.\<close>

fun removeFirstComma :: "string \<Rightarrow> string" where
  "removeFirstComma [] = []"
| "removeFirstComma (x # xs) = (if x = CHR '','' then xs else x # removeFirstComma xs)"

text \<open>
  \<open>parseFilledAvg(column, symbol)\<close>. The column is \<open>None\<close> when the row has no such
  field; \<open>column || "0@0"\<close> also replaces the empty string. \<open>parseFloat\<close> is the
  parameter \<open>pf\<close>, \<open>None\<close> for NaN, and \<open>x || 0\<close> turns NaN into 0. The array
  destructuring leaves \<open>price\<close> undefined when the column has no \<open>@\<close>, and
  \<open>price.replace\<close> then throws a TypeError.
\<close>

definition orZero :: "rat option \<Rightarrow> rat" where
  "orZero x = (case x of None \<Rightarrow> 0 | Some v \<Rightarrow> v)"

definition parseFilledAvg ::
  "(string \<Rightarrow> rat option) \<Rightarrow> int \<Rightarrow> string option \<Rightarrow> string \<Rightarrow> jsError + (rat \<times> rat)" where
  "parseFilledAvg pf now column symbol =
     (let col = (case column of None \<Rightarrow> ''0@0'' | Some c \<Rightarrow> if c = [] then ''0@0'' else c)
      in case splitOn CHR ''@'' col of
           [] \<Rightarrow> Inl TypeError
         | [qtyStr] \<Rightarrow> Inl TypeError
         | qtyStr # priceStr # _ \<Rightarrow>
            (let rawPrice = orZero (pf (removeFirstComma priceStr));
                 multiplier = (if symbol \<noteq> [] then getMultiplier now symbol else 1)
             in Inr (orZero (pf (removeFirstComma qtyStr)), rawPrice * multiplier)))"

text \<open>
  A row of the trade file as the report functions read it: the fill time is the result of
  \<open>parseCSVDate\<close> (a valid date, 1900-01-01 when the text does not parse), the market is
  the one that \<open>loadPortfolioData\<close> stored in the row.
\<close>

record row =
  Symbol :: string
  Side :: string
  Name :: string
  FilledAvgPrice :: "string option"
  FillTime :: int
  Commission :: "string option"
  Total :: "string option"
  rowMarket :: string

text \<open>The object that the report functions push into \<open>symbolGroups[symbol]\<close>.\<close>

record trade =
  side :: string
  qty :: rat
  price :: rat
  amount :: rat
  date :: int
  commission :: rat
  fees :: rat
  name :: string
  market :: string
  originalCurrency :: "string option"
  amountAUD :: rat
  commissionAUD :: rat
  feesAUD :: rat
  isSynthetic :: bool

definition parseFloatOpt :: "(string \<Rightarrow> rat option) \<Rightarrow> string option \<Rightarrow> rat" where
  "parseFloatOpt pf x = (case x of None \<Rightarrow> 0 | Some s \<Rightarrow> orZero (pf s))"

text \<open>The body of the grouping loop of \<open>calculateCapitalGains\<close>: amounts are converted
  to AUD at the rate of the trade's own date.\<close>

definition capitalGainsTrade ::
  "(string \<Rightarrow> rat option) \<Rightarrow> rates \<Rightarrow> int \<Rightarrow> row \<Rightarrow> jsError + trade" where
  "capitalGainsTrade pf t now r =
     (case parseFilledAvg pf now (FilledAvgPrice r) (Symbol r) of
        Inl e \<Rightarrow> Inl e
      | Inr (q, p) \<Rightarrow>
          (let amt = q * p;
               com = parseFloatOpt pf (Commission r);
               fee = parseFloatOpt pf (Total r)
           in Inr \<lparr>side = Side r, qty = q, price = p, amount = amt, date = FillTime r,
                    commission = com, fees = fee, name = Name r, market = rowMarket r,
                    originalCurrency = None,
                    amountAUD = convertCurrency t amt (rowMarket r) ''AUD'' (FillTime r),
                    commissionAUD = convertCurrency t com (rowMarket r) ''AUD'' (FillTime r),
                    feesAUD = convertCurrency t fee (rowMarket r) ''AUD'' (FillTime r),
                    isSynthetic = False\<rparr>))"

text \<open>The body of the grouping loop of \<open>calculateFIFOPnL\<close>: amounts stay in the
  original currency. The AUD fields are absent in the source object and never read.\<close>

definition fifoPnLTrade ::
  "(string \<Rightarrow> rat option) \<Rightarrow> int \<Rightarrow> row \<Rightarrow> jsError + trade" where
  "fifoPnLTrade pf now r =
     (case parseFilledAvg pf now (FilledAvgPrice r) (Symbol r) of
        Inl e \<Rightarrow> Inl e
      | Inr (q, p) \<Rightarrow>
          Inr \<lparr>side = Side r, qty = q, price = p, amount = q * p, date = FillTime r,
                commission = parseFloatOpt pf (Commission r),
                fees = parseFloatOpt pf (Total r), name = Name r, market = rowMarket r,
                originalCurrency = Some (if rowMarket r = ''US'' then ''USD'' else ''AUD''),
                amountAUD = 0, commissionAUD = 0, feesAUD = 0, isSynthetic = False\<rparr>)"

text \<open>\<open>forEach\<close> over the rows of one symbol: the first exception ends the whole
  computation.\<close>

fun mapRows :: "('a \<Rightarrow> jsError + 'b) \<Rightarrow> 'a list \<Rightarrow> jsError + 'b list" where
  "mapRows f [] = Inr []"
| "mapRows f (x # xs) =
     (case f x of
        Inl e \<Rightarrow> Inl e
      | Inr y \<Rightarrow> (case mapRows f xs of Inl e \<Rightarrow> Inl e | Inr ys \<Rightarrow> Inr (y # ys)))"

section \<open>Synthetic close of expired options\<close>

text \<open>
  \<open>addExpiredOptionsLosses\<close>, the body of its first loop for one symbol and its group.
  Its second loop looks at symbols with a position and no group; both are built from the
  same executed rows, so there is none. \<open>a.date - b.date\<close> sorts stably by date.
\<close>

definition remainingHoldings :: "trade list \<Rightarrow> rat" where
  "remainingHoldings trades =
     foldl (\<lambda>r tr. if side tr = ''Buy'' then r + qty tr
                     else if side tr = ''Sell'' then r - qty tr else r) 0 trades"

definition sampleTrade :: "trade list \<Rightarrow> trade option" where
  "sampleTrade trades =
     (case find (\<lambda>tr. name tr \<noteq> []) trades of
        Some tr \<Rightarrow> Some tr
      | None \<Rightarrow> (case trades of [] \<Rightarrow> None | tr # _ \<Rightarrow> Some tr))"

definition syntheticSell :: "string \<Rightarrow> int \<Rightarrow> rat \<Rightarrow> trade option \<Rightarrow> trade" where
  "syntheticSell symbol expiry remaining sample =
     \<lparr>side = ''Sell'', qty = remaining, price = 0, amount = 0, date = expiry,
      commission = 0, fees = 0,
      name = (case sample of Some tr \<Rightarrow> name tr | None \<Rightarrow> symbol),
      market = (case sample of Some tr \<Rightarrow> market tr | None \<Rightarrow> ''US''),
      originalCurrency = None,
      amountAUD = 0, commissionAUD = 0, feesAUD = 0, isSynthetic = True\<rparr>"

text \<open>The synthetic sell for the sorted trades of an expired option.\<close>

definition expirySell :: "string \<Rightarrow> optionsInfo \<Rightarrow> trade list \<Rightarrow> trade" where
  "expirySell symbol info trades =
     syntheticSell symbol (expiryDate info) (remainingHoldings trades) (sampleTrade trades)"

definition addExpiredOptionsLosses :: "int \<Rightarrow> string \<Rightarrow> trade list \<Rightarrow> trade list" where
  "addExpiredOptionsLosses now symbol grp =
     (case parseOptionsSymbol now symbol of
        None \<Rightarrow> grp
      | Some info \<Rightarrow>
          if \<not> isExpired info then grp
          else
            (let trades = sort_key date grp
             in if remainingHoldings trades > 1 / 100
                then trades @ [expirySell symbol info trades]
                else trades))"

section \<open>FIFO lot engine (calculateFIFOPnL)\<close>

record holding =
  holding_qty :: rat
  costBasis :: rat
  costPerShare :: rat
  currency :: string
  holding_date :: int
  isShort :: bool

text \<open>
  The \<open>while (remainingQtyToSell > 0 && holdingsQueue.length > 0)\<close> loop of a sell. The
  head holding is updated in place and shifted out once its quantity is not positive.
  The result is the remaining quantity, the queue and \<open>totalCostBasisSold\<close>.
\<close>

function sellLoop :: "rat \<Rightarrow> holding list \<Rightarrow> rat \<Rightarrow> rat \<times> holding list \<times> rat" where
  "sellLoop remainingQtyToSell [] totalCostBasisSold =
     (remainingQtyToSell, [], totalCostBasisSold)"
| "sellLoop remainingQtyToSell (h # rest) totalCostBasisSold =
     (if remainingQtyToSell > 0 then
        sellLoop
          (remainingQtyToSell - min remainingQtyToSell (holding_qty h))
          (if holding_qty h - min remainingQtyToSell (holding_qty h) \<le> 0 then rest
           else h\<lparr>holding_qty := holding_qty h - min remainingQtyToSell (holding_qty h),
                  costBasis := costBasis h
                    - costPerShare h * min remainingQtyToSell (holding_qty h)\<rparr> # rest)
          (totalCostBasisSold + costPerShare h * min remainingQtyToSell (holding_qty h))
      else (remainingQtyToSell, h # rest, totalCostBasisSold))"
  by pat_completeness auto
termination
  by (relation "measure (\<lambda>(r, q, c). 2 * length q + (if r > 0 then 1 else 0))")
     (auto simp add: min_def)

record fifoState =
  holdingsQueue :: "holding list"
  realizedUSD :: rat
  realizedAUD :: rat
  buyUSD :: rat
  sellUSD :: rat
  buyAUD :: rat
  sellAUD :: rat
  totalBuyAmount :: rat
  totalBuyQty :: rat

definition initialState :: fifoState where
  "initialState = \<lparr>holdingsQueue = [], realizedUSD = 0, realizedAUD = 0, buyUSD = 0,
     sellUSD = 0, buyAUD = 0, sellAUD = 0, totalBuyAmount = 0, totalBuyQty = 0\<rparr>"

text \<open>\<open>trade.originalCurrency || 'USD'\<close>; the grouping loop stores USD or AUD, the
  synthetic sell stores nothing.\<close>

definition tradeCurrency :: "trade \<Rightarrow> string" where
  "tradeCurrency tr =
     (case originalCurrency tr of None \<Rightarrow> ''USD'' | Some c \<Rightarrow> if c = [] then ''USD'' else c)"

text \<open>The short lot that a sell leaves when the queue empties first.\<close>

definition shortHolding :: "trade \<Rightarrow> rat \<Rightarrow> holding" where
  "shortHolding tr remainingQtyToSell =
     (let shortSellProceeds = (amount tr / qty tr) * remainingQtyToSell;
          shortSellFees = ((commission tr + fees tr) / qty tr) * remainingQtyToSell
      in \<lparr>holding_qty = - remainingQtyToSell,
           costBasis = - (shortSellProceeds - shortSellFees),
           costPerShare = (shortSellProceeds - shortSellFees) / remainingQtyToSell,
           currency = tradeCurrency tr,
           holding_date = date tr,
           isShort = True\<rparr>)"

text \<open>The realized P&L that a sell books, given the queue it meets.\<close>

definition realizedPnL :: "trade \<Rightarrow> holding list \<Rightarrow> rat" where
  "realizedPnL tr queue =
     (case sellLoop (qty tr) queue 0 of
        (remainingQtyToSell, queue', totalCostBasisSold) \<Rightarrow>
          (amount tr - commission tr - fees tr) - totalCostBasisSold)"

text \<open>The body of \<open>trades.forEach\<close>: one trade against the state of its symbol.\<close>

definition processTrade :: "fifoState \<Rightarrow> trade \<Rightarrow> fifoState" where
  "processTrade s tr =
     (if side tr = ''Buy'' then
        (let totalCost = amount tr + commission tr + fees tr;
             s' = s\<lparr>holdingsQueue := holdingsQueue s @
                       [\<lparr>holding_qty = qty tr, costBasis = totalCost,
                         costPerShare = totalCost / qty tr, currency = tradeCurrency tr,
                         holding_date = date tr, isShort = False\<rparr>],
                     totalBuyAmount := totalBuyAmount s + totalCost,
                     totalBuyQty := totalBuyQty s + qty tr\<rparr>
         in if tradeCurrency tr = ''USD'' then s'\<lparr>buyUSD := buyUSD s + amount tr\<rparr>
            else s'\<lparr>buyAUD := buyAUD s + amount tr\<rparr>)
      else if side tr = ''Sell'' then
        (case sellLoop (qty tr) (holdingsQueue s) 0 of
           (remainingQtyToSell, queue, totalCostBasisSold) \<Rightarrow>
             (let sellProceeds = amount tr - commission tr - fees tr;
                  pnl = sellProceeds - totalCostBasisSold;
                  s' = s\<lparr>holdingsQueue :=
                          (if remainingQtyToSell > 0
                           then shortHolding tr remainingQtyToSell # queue else queue)\<rparr>
              in if tradeCurrency tr = ''USD''
                 then s'\<lparr>realizedUSD := realizedUSD s + pnl, sellUSD := sellUSD s + amount tr\<rparr>
                 else s'\<lparr>realizedAUD := realizedAUD s + pnl, sellAUD := sellAUD s + amount tr\<rparr>))
      else s)"

text \<open>The replay of one symbol: its group sorted by date, from the empty queue.\<close>

definition replay :: "trade list \<Rightarrow> fifoState" where
  "replay grp = foldl processTrade initialState (sort_key date grp)"

record symbolPnL =
  netPosition :: rat
  avgBuyPrice :: rat
  totalPnL :: rat
  buyVolume :: rat
  sellVolume :: rat

text \<open>The entry of \<open>results[symbol]\<close>: the state after the replay, converted into the
  display currency at the rate of the current date.\<close>

definition summarize :: "rates \<Rightarrow> int \<Rightarrow> string \<Rightarrow> fifoState \<Rightarrow> symbolPnL" where
  "summarize t now displayCurrency s =
     (let currentNetPosition = foldl (\<lambda>sum h. sum + holding_qty h) 0 (holdingsQueue s);
          currentTotalCost = foldl (\<lambda>sum h. sum + \<bar>costBasis h\<bar>) 0 (holdingsQueue s);
          fromUSD = (if displayCurrency = ''USD'' then 1 else getUSDToAUDRate t now);
          fromAUD = (if displayCurrency = ''AUD'' then 1 else 1 / getUSDToAUDRate t now)
      in \<lparr>netPosition = currentNetPosition,
           avgBuyPrice = (if currentNetPosition > 0 then currentTotalCost / currentNetPosition
                          else 0),
           totalPnL = realizedUSD s * fromUSD + realizedAUD s * fromAUD,
           buyVolume = buyUSD s * fromUSD + buyAUD s * fromAUD,
           sellVolume = sellUSD s * fromUSD + sellAUD s * fromAUD\<rparr>)"

text \<open>\<open>calculateFIFOPnL\<close> for one symbol and its group of trades. A group has at
  least one trade, so the test \<open>currentNetPosition !== 0 || trades.length > 0\<close> before
  the entry is stored always holds.\<close>

definition calculateFIFOPnL :: "rates \<Rightarrow> int \<Rightarrow> string \<Rightarrow> string \<Rightarrow> trade list \<Rightarrow> symbolPnL" where
  "calculateFIFOPnL t now displayCurrency symbol grp =
     summarize t now displayCurrency (replay (addExpiredOptionsLosses now symbol grp))"

section \<open>Capital gains reporter (calculateCapitalGains)\<close>

record lot =
  lot_qty :: rat
  lot_price :: rat
  priceAUD :: rat
  lot_date :: int
  cost :: rat

record capitalGain =
  gain_symbol :: string
  sellDate :: int
  buyDate :: int
  gain_qty :: rat
  sellPrice :: rat
  gain_costBasis :: rat
  proceeds :: rat
  capitalGainAUD :: rat
  holdingPeriod :: int
  isLongTerm :: bool

text \<open>The record that a sell inside the window pushes for the head lot.\<close>

definition gainForLot :: "string \<Rightarrow> trade \<Rightarrow> lot \<Rightarrow> rat \<Rightarrow> capitalGain" where
  "gainForLot symbol tr l qtyToSell =
     (let sellPricePerUnit = (if qty tr > 0 then amountAUD tr / qty tr else 0);
          totalCommissionAndFees = commissionAUD tr + feesAUD tr;
          costPerUnit = cost l / lot_qty l;
          basis = costPerUnit * qtyToSell;
          proceedsForLot = qtyToSell * sellPricePerUnit;
          commissionAndFeesForLot = totalCommissionAndFees * (qtyToSell / qty tr);
          netProceedsForLot = proceedsForLot - commissionAndFeesForLot;
          period = (date tr - lot_date l) div msPerDay
      in \<lparr>gain_symbol = symbol, sellDate = date tr, buyDate = lot_date l,
           gain_qty = qtyToSell, sellPrice = sellPricePerUnit, gain_costBasis = basis,
           proceeds = netProceedsForLot, capitalGainAUD = netProceedsForLot - basis,
           holdingPeriod = period, isLongTerm = (period \<ge> 365)\<rparr>)"

text \<open>
  The loop of a sell inside the window: one record for each lot it takes from, the lot's
  quantity and cost reduced, the lot shifted out when its quantity is 0. The result is the
  remaining quantity, the holdings and the records pushed.
\<close>

function sellInWindow ::
  "string \<Rightarrow> trade \<Rightarrow> rat \<Rightarrow> lot list \<Rightarrow> capitalGain list \<Rightarrow> rat \<times> lot list \<times> capitalGain list" where
  "sellInWindow symbol tr remainingQty [] gains = (remainingQty, [], gains)"
| "sellInWindow symbol tr remainingQty (l # rest) gains =
     (if remainingQty > 0 then
        sellInWindow symbol tr
          (remainingQty - min remainingQty (lot_qty l))
          (if lot_qty l - min remainingQty (lot_qty l) = 0 then rest
           else l\<lparr>lot_qty := lot_qty l - min remainingQty (lot_qty l),
                  cost := cost l - cost l / lot_qty l * min remainingQty (lot_qty l)\<rparr> # rest)
          (gains @ [gainForLot symbol tr l (min remainingQty (lot_qty l))])
      else (remainingQty, l # rest, gains))"
  by pat_completeness auto
termination
  by (relation "measure (\<lambda>(s, tr, r, q, g). 2 * length q + (if r > 0 then 1 else 0))")
     (auto simp add: min_def)

text \<open>The loop of a sell outside the window: only the quantity of the lot is reduced.\<close>

function sellOutsideWindow :: "rat \<Rightarrow> lot list \<Rightarrow> rat \<times> lot list" where
  "sellOutsideWindow remainingQty [] = (remainingQty, [])"
| "sellOutsideWindow remainingQty (l # rest) =
     (if remainingQty > 0 then
        sellOutsideWindow
          (remainingQty - min remainingQty (lot_qty l))
          (if lot_qty l - min remainingQty (lot_qty l) = 0 then rest
           else l\<lparr>lot_qty := lot_qty l - min remainingQty (lot_qty l)\<rparr> # rest)
      else (remainingQty, l # rest))"
  by pat_completeness auto
termination
  by (relation "measure (\<lambda>(r, q). 2 * length q + (if r > 0 then 1 else 0))")
     (auto simp add: min_def)

text \<open>The report window. A financial year is \<open>None\<close> when the caller gives none.\<close>

definition cutoffDateStart :: "int option \<Rightarrow> int" where
  "cutoffDateStart financialYear =
     (case financialYear of Some y \<Rightarrow> isoDate y 7 1 | None \<Rightarrow> isoDate 2000 1 1)"

definition cutoffDateEnd :: "int \<Rightarrow> int option \<Rightarrow> int" where
  "cutoffDateEnd now financialYear =
     (case financialYear of
        Some y \<Rightarrow> isoDate (y + 1) 6 30 + (msPerDay - 1)
      | None \<Rightarrow> now)"

definition inWindow :: "int \<Rightarrow> int option \<Rightarrow> trade \<Rightarrow> bool" where
  "inWindow now financialYear tr =
     (date tr \<ge> cutoffDateStart financialYear \<and> date tr \<le> cutoffDateEnd now financialYear)"

text \<open>The records that one sell pushes, given the holdings it meets.\<close>

definition gainsOfSell :: "string \<Rightarrow> trade \<Rightarrow> lot list \<Rightarrow> capitalGain list" where
  "gainsOfSell symbol tr holdings = snd (snd (sellInWindow symbol tr (qty tr) holdings []))"

text \<open>The body of \<open>trades.forEach\<close>: the state is the holdings and the records so far.\<close>

definition gainsTrade ::
  "int \<Rightarrow> int option \<Rightarrow> string \<Rightarrow> lot list \<times> capitalGain list \<Rightarrow> trade \<Rightarrow> lot list \<times> capitalGain list" where
  "gainsTrade now financialYear symbol st tr =
     (case st of (holdings, gains) \<Rightarrow>
        if side tr = ''Buy'' then
          (holdings @ [\<lparr>lot_qty = qty tr, lot_price = price tr,
                         priceAUD = amountAUD tr / qty tr, lot_date = date tr,
                         cost = amountAUD tr + commissionAUD tr + feesAUD tr\<rparr>], gains)
        else if side tr = ''Sell'' then
          (if inWindow now financialYear tr then
             (case sellInWindow symbol tr (qty tr) holdings [] of
                (remainingQty, holdings', pushed) \<Rightarrow> (holdings', gains @ pushed))
           else
             (case sellOutsideWindow (qty tr) holdings of
                (remainingQty, holdings') \<Rightarrow> (holdings', gains)))
        else (holdings, gains))"

text \<open>The records of one symbol, in the order pushed, and the holdings left.\<close>

definition gainsReplay ::
  "int \<Rightarrow> int option \<Rightarrow> string \<Rightarrow> trade list \<Rightarrow> lot list \<times> capitalGain list" where
  "gainsReplay now financialYear symbol grp =
     foldl (gainsTrade now financialYear symbol) ([], []) (sort_key date grp)"

text \<open>\<open>calculateCapitalGains\<close> over the groups of \<open>symbolGroups\<close>, each with the
  synthetic close added; \<open>b.sellDate - a.sellDate\<close> sorts stably, latest sell first.\<close>

definition calculateCapitalGains ::
  "int \<Rightarrow> int option \<Rightarrow> (string \<times> trade list) list \<Rightarrow> capitalGain list" where
  "calculateCapitalGains now financialYear symbolGroups =
     sort_key (\<lambda>g. - sellDate g)
       (concat (map (\<lambda>(symbol, grp).
          snd (gainsReplay now financialYear symbol (addExpiredOptionsLosses now symbol grp)))
          symbolGroups))"

section \<open>The FIFO rule in the specification's words\<close>

text \<open>
  "Repeat: take the head lot; consumed = min(remaining, head quantity); continue with the
  rest": the quantities that a sell of \<open>r\<close> units takes from a queue of lot quantities,
  head first. This function follows the specification, not the code; \<open>sellLoop\<close> is
  compared with it below.
\<close>

fun fifoTakes :: "rat \<Rightarrow> rat list \<Rightarrow> rat list" where
  "fifoTakes r [] = []"
| "fifoTakes r (q # qs) = min r q # fifoTakes (r - min r q) qs"

text \<open>A lot after \<open>k\<close> of its units are consumed at its per-unit cost.\<close>

definition reduceHolding :: "holding \<Rightarrow> rat \<Rightarrow> holding" where
  "reduceHolding h k =
     h\<lparr>holding_qty := holding_qty h - k, costBasis := costBasis h - costPerShare h * k\<rparr>"


section \<open>Example trades\<close>

text \<open>
  An Australian trade of \<open>q\<close> units at price \<open>p\<close> without commission or fees, as the
  grouping loops store it: the currency is AUD and the AUD amounts are the original ones.
\<close>

definition plainTrade :: "string \<Rightarrow> rat \<Rightarrow> rat \<Rightarrow> int \<Rightarrow> trade" where
  "plainTrade s q p d =
     \<lparr>side = s, qty = q, price = p, amount = q * p, date = d, commission = 0, fees = 0,
      name = ''ACME'', market = ''AU'', originalCurrency = Some ''AUD'',
      amountAUD = q * p, commissionAUD = 0, feesAUD = 0, isSynthetic = False\<rparr>"

section \<open>Properties of the currency converter\<close>

lemma dateKey_addDays: "dateKey (addDays d i) = dateKey d + i"
  by (simp add: dateKey_def addDays_def msPerDay_def)

declare nearestLoop.simps [simp del]

lemma nearestLoop_miss:
  assumes "i \<le> 7" "t (dateKey d - int i) = None" "t (dateKey d + int i) = None"
  shows "nearestLoop t d i = nearestLoop t d (Suc i)"
  using assms by (subst nearestLoop.simps) (simp add: dateKey_addDays)

lemma nearestLoop_skip:
  assumes "i0 \<le> i" and "i \<le> 8"
    and "\<forall>j. i0 \<le> j \<and> j < i \<longrightarrow>
           t (dateKey d - int j) = None \<and> t (dateKey d + int j) = None"
  shows "nearestLoop t d i0 = nearestLoop t d i"
  using assms(1,3)
proof (induction rule: inc_induct)
  case base
  show ?case by simp
next
  case (step n)
  from step.hyps assms(2) have n7: "n \<le> 7" by simp
  from step.prems step.hyps have
    "t (dateKey d - int n) = None" "t (dateKey d + int n) = None" by auto
  with n7 have "nearestLoop t d n = nearestLoop t d (Suc n)"
    by (rule nearestLoop_miss)
  also have "\<dots> = nearestLoop t d i"
    using step.prems by (intro step.IH) auto
  finally show ?case .
qed

lemma nearestLoop_earlier:
  assumes "i \<le> 7" "t (dateKey d - int i) = Some r"
  shows "nearestLoop t d i = r"
  using assms by (subst nearestLoop.simps) (simp add: dateKey_addDays)

lemma nearestLoop_later:
  assumes "i \<le> 7" "t (dateKey d - int i) = None" "t (dateKey d + int i) = Some r"
  shows "nearestLoop t d i = r"
  using assms by (subst nearestLoop.simps) (simp add: dateKey_addDays)

lemma nearestLoop_end: "nearestLoop t d 8 = 3 / 2"
  by (subst nearestLoop.simps) simp

lemma nearestLoop_positive:
  assumes "\<forall>k r. t k = Some r \<longrightarrow> 0 < r"
  shows "0 < nearestLoop t d i"
  using assms
proof (induction t d i rule: nearestLoop.induct)
  case (1 t d i)
  then show ?case
    by (subst nearestLoop.simps) (auto split: option.splits)
qed

lemma within7: "((of_int x :: rat) / of_int msPerDay \<le> 7) = (x \<le> 7 * msPerDay)"
proof -
  have "((of_int x :: rat) / of_int msPerDay \<le> 7) = ((of_int x :: rat) \<le> of_int (7 * msPerDay))"
    by (simp add: msPerDay_def pos_divide_le_eq)
  then show ?thesis by (simp only: of_int_le_iff)
qed

lemma nearestScan_Cons:
  "nearestScan ((k, r) # es) d nearest =
     (if \<bar>d - k * msPerDay\<bar> \<le> 7 * msPerDay \<and>
         (case nearest of
            None \<Rightarrow> True
          | Some (nearestDiff, nearestRate) \<Rightarrow> \<bar>d - k * msPerDay\<bar> < nearestDiff)
      then nearestScan es d (Some (\<bar>d - k * msPerDay\<bar>, r))
      else nearestScan es d nearest)"
  by (simp only: nearestScan.simps within7)

declare nearestScan.simps(2) [simp del]

lemma nearestScan_none:
  "\<forall>(k, r)\<in>set es. 7 * msPerDay < \<bar>d - k * msPerDay\<bar> \<Longrightarrow> nearestScan es d nearest = nearest"
  by (induction es arbitrary: nearest) (auto simp add: nearestScan_Cons)

lemma nearestScan_keep:
  "\<forall>(k, r)\<in>set es. nd \<le> \<bar>d - k * msPerDay\<bar> \<Longrightarrow>
     nearestScan es d (Some (nd, nr)) = Some (nd, nr)"
  by (induction es) (auto simp add: nearestScan_Cons)

lemma nearestScan_find:
  assumes "(k, r) \<in> set es" and "\<bar>d - k * msPerDay\<bar> \<le> 7 * msPerDay"
    and "\<forall>(k', r')\<in>set es. (k', r') \<noteq> (k, r) \<longrightarrow> \<bar>d - k * msPerDay\<bar> < \<bar>d - k' * msPerDay\<bar>"
    and "case nearest of None \<Rightarrow> True | Some (nd, nr) \<Rightarrow> \<bar>d - k * msPerDay\<bar> < nd"
  shows "nearestScan es d nearest = Some (\<bar>d - k * msPerDay\<bar>, r)"
  using assms
proof (induction es arbitrary: nearest)
  case Nil
  then show ?case by simp
next
  case (Cons e es)
  obtain k' r' where e: "e = (k', r')" by (cases e)
  have others: "\<forall>(k'', r'')\<in>set es. (k'', r'') \<noteq> (k, r) \<longrightarrow>
      \<bar>d - k * msPerDay\<bar> < \<bar>d - k'' * msPerDay\<bar>"
    using Cons.prems(3) by auto
  show ?case
  proof (cases "e = (k, r)")
    case True
    have "\<forall>(k'', r'')\<in>set es. \<bar>d - k * msPerDay\<bar> \<le> \<bar>d - k'' * msPerDay\<bar>"
      using others by fastforce
    then have "nearestScan es d (Some (\<bar>d - k * msPerDay\<bar>, r)) = Some (\<bar>d - k * msPerDay\<bar>, r)"
      by (rule nearestScan_keep)
    with True Cons.prems(2,4) show ?thesis
      by (auto simp add: nearestScan_Cons split: option.splits)
  next
    case False
    with Cons.prems(1) have mem: "(k, r) \<in> set es" by simp
    from False e Cons.prems(3) have far: "\<bar>d - k * msPerDay\<bar> < \<bar>d - k' * msPerDay\<bar>" by auto
    show ?thesis
    proof (cases "\<bar>d - k' * msPerDay\<bar> \<le> 7 * msPerDay \<and>
         (case nearest of None \<Rightarrow> True | Some (nd, nr) \<Rightarrow> \<bar>d - k' * msPerDay\<bar> < nd)")
      case yes: True
      have "nearestScan (e # es) d nearest =
          nearestScan es d (Some (\<bar>d - k' * msPerDay\<bar>, r'))"
        unfolding e nearestScan_Cons using yes by simp
      also have "\<dots> = Some (\<bar>d - k * msPerDay\<bar>, r)"
        using mem Cons.prems(2) others far by (intro Cons.IH) simp_all
      finally show ?thesis .
    next
      case no: False
      have "nearestScan (e # es) d nearest = nearestScan es d nearest"
        unfolding e nearestScan_Cons by (simp only: no if_False)
      also have "\<dots> = Some (\<bar>d - k * msPerDay\<bar>, r)"
        using mem Cons.prems(2) others Cons.prems(4) by (intro Cons.IH)
      finally show ?thesis .
    qed
  qed
qed

lemma server_fallback:
  assumes "map_of es (dateKey d) = None"
    and "\<forall>(k, r)\<in>set es. 7 * msPerDay < \<bar>d - k * msPerDay\<bar>"
  shows "getUSDToAUDRateServer es d = 3 / 2"
  using assms by (simp add: getUSDToAUDRateServer_def nearestScan_none)

lemma server_nearest:
  assumes "map_of es (dateKey d) = None" and "(k, r) \<in> set es" and "r \<noteq> 0"
    and "\<bar>d - k * msPerDay\<bar> \<le> 7 * msPerDay"
    and "\<forall>(k', r')\<in>set es. (k', r') \<noteq> (k, r) \<longrightarrow> \<bar>d - k * msPerDay\<bar> < \<bar>d - k' * msPerDay\<bar>"
  shows "getUSDToAUDRateServer es d = r"
proof -
  have "nearestScan es d None = Some (\<bar>d - k * msPerDay\<bar>, r)"
    using assms(2,4,5) by (intro nearestScan_find) simp_all
  with assms(1,3) show ?thesis by (simp add: getUSDToAUDRateServer_def)
qed

lemma dateKey_bounds: "dateKey d = k \<Longrightarrow> k * msPerDay \<le> d \<and> d < k * msPerDay + msPerDay"
proof -
  assume "dateKey d = k"
  then have k: "k = d div msPerDay" by (simp add: dateKey_def)
  have pos: "0 < msPerDay" by (simp add: msPerDay_def)
  have "d = (d div msPerDay) * msPerDay + d mod msPerDay" by simp
  moreover have "0 \<le> d mod msPerDay" "d mod msPerDay < msPerDay" using pos by simp_all
  ultimately show ?thesis unfolding k by linarith
qed

lemma server_example_near:
  assumes "a \<noteq> 0" and "dateKey d = daysFromCivil 2024 1 4"
  shows "getUSDToAUDRateServer
           [(daysFromCivil 2024 1 1, a), (daysFromCivil 2024 1 10, b)] d = a"
proof -
  have k: "dateKey d = 19726" using assms(2) by (simp add: daysFromCivil_def)
  from dateKey_bounds [OF k] have b: "19726 * msPerDay \<le> d" "d < 19727 * msPerDay"
    by simp_all
  have t: "daysFromCivil 2024 1 1 = 19723" "daysFromCivil 2024 1 10 = 19732"
    by (simp_all add: daysFromCivil_def)
  show ?thesis
    unfolding t
    by (rule server_nearest [where k = 19723])
       (use b assms(1) in \<open>auto simp add: k msPerDay_def\<close>)
qed

lemma server_example_far:
  assumes "dateKey d = daysFromCivil 2024 1 20"
  shows "getUSDToAUDRateServer
           [(daysFromCivil 2024 1 1, a), (daysFromCivil 2024 1 10, b)] d = 3 / 2"
proof -
  have k: "dateKey d = 19742" using assms by (simp add: daysFromCivil_def)
  from dateKey_bounds [OF k] have b: "19742 * msPerDay \<le> d" "d < 19743 * msPerDay"
    by simp_all
  have t: "daysFromCivil 2024 1 1 = 19723" "daysFromCivil 2024 1 10 = 19732"
    by (simp_all add: daysFromCivil_def)
  show ?thesis
    unfolding t
    by (rule server_fallback) (use b in \<open>auto simp add: k msPerDay_def\<close>)
qed


text \<open>
  Claim C6, as the code has it. In main.js, when the exact day has no rate,
  \<open>getUSDToAUDRate\<close> probes day \<open>-1, +1, -2, +2, ...\<close> out to 7 days (days of 24
  hours: the local zone has no daylight saving change) and returns the first hit: a rate \<open>i\<close> days earlier wins when no nearer day has one, a rate \<open>i\<close> days
  later wins when moreover the day \<open>i\<close> earlier has none, and with no rate within 7 days
  on either side the result is 1.5. In server.js, when the exact day has no rate, the
  result is the rate (not 0) of the entry of the table that is strictly nearest in time to
  the date, when that entry is at most 7 times 24 hours away, and 1.5 when no entry is. With rates only for
  2024-01-01 and 2024-01-10, in both files a date on 2024-01-04 gets the rate of 2024-01-01
  and a date on 2024-01-20 gets 1.5.
\<close>

theorem getUSDToAUDRate_main_probe_server_scan:
  "(\<forall>t d i r. t (dateKey d) = None \<and> 1 \<le> i \<and> i \<le> 7 \<and>
       (\<forall>j. 1 \<le> j \<and> j < i \<longrightarrow>
            t (dateKey d - int j) = None \<and> t (dateKey d + int j) = None) \<and>
       t (dateKey d - int i) = Some r \<longrightarrow> getUSDToAUDRate t d = r) \<and>
   (\<forall>t d i r. t (dateKey d) = None \<and> 1 \<le> i \<and> i \<le> 7 \<and>
       (\<forall>j. 1 \<le> j \<and> j < i \<longrightarrow>
            t (dateKey d - int j) = None \<and> t (dateKey d + int j) = None) \<and>
       t (dateKey d - int i) = None \<and> t (dateKey d + int i) = Some r \<longrightarrow>
       getUSDToAUDRate t d = r) \<and>
   (\<forall>t d. t (dateKey d) = None \<and>
       (\<forall>j. 1 \<le> j \<and> j \<le> 7 \<longrightarrow>
            t (dateKey d - int j) = None \<and> t (dateKey d + int j) = None) \<longrightarrow>
       getUSDToAUDRate t d = 3 / 2) \<and>
   (\<forall>a b d. dateKey d = daysFromCivil 2024 1 4 \<longrightarrow>
       getUSDToAUDRate [daysFromCivil 2024 1 1 \<mapsto> a, daysFromCivil 2024 1 10 \<mapsto> b] d = a) \<and>
   (\<forall>a b d. dateKey d = daysFromCivil 2024 1 20 \<longrightarrow>
       getUSDToAUDRate [daysFromCivil 2024 1 1 \<mapsto> a, daysFromCivil 2024 1 10 \<mapsto> b] d = 3 / 2) \<and>
   (\<forall>es d. map_of es (dateKey d) = None \<and>
       (\<forall>(k, r)\<in>set es. 7 * msPerDay < \<bar>d - k * msPerDay\<bar>) \<longrightarrow>
       getUSDToAUDRateServer es d = 3 / 2) \<and>
   (\<forall>es d k r. map_of es (dateKey d) = None \<and> (k, r) \<in> set es \<and> r \<noteq> 0 \<and>
       \<bar>d - k * msPerDay\<bar> \<le> 7 * msPerDay \<and>
       (\<forall>(k', r')\<in>set es. (k', r') \<noteq> (k, r) \<longrightarrow>
            \<bar>d - k * msPerDay\<bar> < \<bar>d - k' * msPerDay\<bar>) \<longrightarrow>
       getUSDToAUDRateServer es d = r) \<and>
   (\<forall>a b d. a \<noteq> 0 \<and> dateKey d = daysFromCivil 2024 1 4 \<longrightarrow>
       getUSDToAUDRateServer [(daysFromCivil 2024 1 1, a), (daysFromCivil 2024 1 10, b)] d = a) \<and>
   (\<forall>a b d. dateKey d = daysFromCivil 2024 1 20 \<longrightarrow>
       getUSDToAUDRateServer [(daysFromCivil 2024 1 1, a), (daysFromCivil 2024 1 10, b)] d
         = 3 / 2)"
proof (intro conjI allI impI)
  fix t :: rates and d i and r :: rat
  assume h: "t (dateKey d) = None \<and> 1 \<le> i \<and> i \<le> 7 \<and>
       (\<forall>j. 1 \<le> j \<and> j < i \<longrightarrow>
            t (dateKey d - int j) = None \<and> t (dateKey d + int j) = None) \<and>
       t (dateKey d - int i) = Some r"
  then have "nearestLoop t d 1 = nearestLoop t d i"
    by (intro nearestLoop_skip) auto
  with h show "getUSDToAUDRate t d = r"
    by (simp add: getUSDToAUDRate_def nearestLoop_earlier)
next
  fix t :: rates and d i and r :: rat
  assume h: "t (dateKey d) = None \<and> 1 \<le> i \<and> i \<le> 7 \<and>
       (\<forall>j. 1 \<le> j \<and> j < i \<longrightarrow>
            t (dateKey d - int j) = None \<and> t (dateKey d + int j) = None) \<and>
       t (dateKey d - int i) = None \<and> t (dateKey d + int i) = Some r"
  then have "nearestLoop t d 1 = nearestLoop t d i"
    by (intro nearestLoop_skip) auto
  with h show "getUSDToAUDRate t d = r"
    by (simp add: getUSDToAUDRate_def nearestLoop_later)
next
  fix t :: rates and d
  assume h: "t (dateKey d) = None \<and>
       (\<forall>j. 1 \<le> j \<and> j \<le> 7 \<longrightarrow>
            t (dateKey d - int j) = None \<and> t (dateKey d + int j) = None)"
  then have "nearestLoop t d 1 = nearestLoop t d 8"
    by (intro nearestLoop_skip) auto
  with h show "getUSDToAUDRate t d = 3 / 2"
    by (simp add: getUSDToAUDRate_def nearestLoop_end)
next
  fix a b :: rat and d
  assume "dateKey d = daysFromCivil 2024 1 4"
  then show "getUSDToAUDRate [daysFromCivil 2024 1 1 \<mapsto> a, daysFromCivil 2024 1 10 \<mapsto> b] d = a"
    by (simp add: getUSDToAUDRate_def nearestLoop.simps dateKey_addDays daysFromCivil_def)
next
  fix a b :: rat and d
  assume "dateKey d = daysFromCivil 2024 1 20"
  then show "getUSDToAUDRate [daysFromCivil 2024 1 1 \<mapsto> a, daysFromCivil 2024 1 10 \<mapsto> b] d = 3 / 2"
    by (simp add: getUSDToAUDRate_def nearestLoop.simps dateKey_addDays daysFromCivil_def)
next
  fix es :: "(int \<times> rat) list" and d
  assume "map_of es (dateKey d) = None \<and>
       (\<forall>(k, r)\<in>set es. 7 * msPerDay < \<bar>d - k * msPerDay\<bar>)"
  then show "getUSDToAUDRateServer es d = 3 / 2" by (simp add: server_fallback)
next
  fix es :: "(int \<times> rat) list" and d k and r :: rat
  assume "map_of es (dateKey d) = None \<and> (k, r) \<in> set es \<and> r \<noteq> 0 \<and>
       \<bar>d - k * msPerDay\<bar> \<le> 7 * msPerDay \<and>
       (\<forall>(k', r')\<in>set es. (k', r') \<noteq> (k, r) \<longrightarrow>
            \<bar>d - k * msPerDay\<bar> < \<bar>d - k' * msPerDay\<bar>)"
  then show "getUSDToAUDRateServer es d = r" by (intro server_nearest [where k = k]) simp_all
next
  fix a b :: rat and d
  assume "a \<noteq> 0 \<and> dateKey d = daysFromCivil 2024 1 4"
  then show "getUSDToAUDRateServer
      [(daysFromCivil 2024 1 1, a), (daysFromCivil 2024 1 10, b)] d = a"
    by (simp add: server_example_near)
next
  fix a b :: rat and d
  assume "dateKey d = daysFromCivil 2024 1 20"
  then show "getUSDToAUDRateServer
      [(daysFromCivil 2024 1 1, a), (daysFromCivil 2024 1 10, b)] d = 3 / 2"
    by (rule server_example_far)
qed


theorem getUSDToAUDRate_main_probe_server_scan_witness:
  "getUSDToAUDRate [19723 \<mapsto> 7, 19732 \<mapsto> 9] (19726 * msPerDay + 3600000) = 7 \<and>
   getUSDToAUDRate [19723 \<mapsto> 7, 19732 \<mapsto> 9] (19728 * msPerDay) = 9 \<and>
   getUSDToAUDRate [19723 \<mapsto> 7, 19732 \<mapsto> 9] (19742 * msPerDay) = 3 / 2 \<and>
   getUSDToAUDRate [daysFromCivil 2024 1 1 \<mapsto> 7, daysFromCivil 2024 1 10 \<mapsto> 9]
     (isoDate 2024 1 4) = 7 \<and>
   getUSDToAUDRate [daysFromCivil 2024 1 1 \<mapsto> 7, daysFromCivil 2024 1 10 \<mapsto> 9]
     (isoDate 2024 1 20) = 3 / 2 \<and>
   getUSDToAUDRateServer [(19723, 7), (19732, 9)] (19726 * msPerDay + 3600000) = 7 \<and>
   getUSDToAUDRateServer [(19723, 7), (19732, 9)] (19742 * msPerDay) = 3 / 2 \<and>
   getUSDToAUDRateServer [(daysFromCivil 2024 1 1, 7), (daysFromCivil 2024 1 10, 9)]
     (isoDate 2024 1 4) = 7 \<and>
   getUSDToAUDRateServer [(daysFromCivil 2024 1 1, 7), (daysFromCivil 2024 1 10, 9)]
     (isoDate 2024 1 20) = 3 / 2"
proof -
  note all = getUSDToAUDRate_main_probe_server_scan
  note srv = all [THEN conjunct2, THEN conjunct2, THEN conjunct2, THEN conjunct2, THEN conjunct2]
  let ?es = "[(19723, 7), (19732, 9)] :: (int \<times> rat) list"
  let ?t = "[19723 \<mapsto> 7, 19732 \<mapsto> 9] :: rates"
  let ?u = "[daysFromCivil 2024 1 1 \<mapsto> 7, daysFromCivil 2024 1 10 \<mapsto> 9] :: rates"
  have k1: "dateKey (19726 * msPerDay + 3600000) = 19726"
    and k2: "dateKey (19728 * msPerDay) = 19728"
    and k3: "dateKey (19742 * msPerDay) = 19742"
    by (simp_all add: dateKey_def msPerDay_def)
  have "\<forall>j::nat. 1 \<le> j \<and> j < 3 \<longrightarrow> j = 1 \<or> j = 2" by auto
  then have a: "getUSDToAUDRate ?t (19726 * msPerDay + 3600000) = 7"
    using getUSDToAUDRate_main_probe_server_scan
    [THEN conjunct1, rule_format, of ?t "19726 * msPerDay + 3600000" 3 7]
    by (auto simp add: k1)
  have "\<forall>j::nat. 1 \<le> j \<and> j < 4 \<longrightarrow> j = 1 \<or> j = 2 \<or> j = 3" by auto
  then have b: "getUSDToAUDRate ?t (19728 * msPerDay) = 9"
    using getUSDToAUDRate_main_probe_server_scan
    [THEN conjunct2, THEN conjunct1, rule_format, of ?t "19728 * msPerDay" 4 9]
    by (auto simp add: k2)
  have "\<forall>j::nat. 1 \<le> j \<and> j \<le> 7 \<longrightarrow>
          j = 1 \<or> j = 2 \<or> j = 3 \<or> j = 4 \<or> j = 5 \<or> j = 6 \<or> j = 7" by auto
  then have c: "getUSDToAUDRate ?t (19742 * msPerDay) = 3 / 2"
    using getUSDToAUDRate_main_probe_server_scan
    [THEN conjunct2, THEN conjunct2, THEN conjunct1, rule_format, of ?t "19742 * msPerDay"]
    by (auto simp add: k3)
  have d: "getUSDToAUDRate ?u (isoDate 2024 1 4) = 7"
    using getUSDToAUDRate_main_probe_server_scan
    [THEN conjunct2, THEN conjunct2, THEN conjunct2, THEN conjunct1, rule_format,
      of "isoDate 2024 1 4" 7 9]
    by (simp add: dateKey_def isoDate_def msPerDay_def)
  have e: "getUSDToAUDRate ?u (isoDate 2024 1 20) = 3 / 2"
    using getUSDToAUDRate_main_probe_server_scan
    [THEN conjunct2, THEN conjunct2, THEN conjunct2, THEN conjunct2, THEN conjunct1,
      rule_format, of "isoDate 2024 1 20" 7 9]
    by (simp add: dateKey_def isoDate_def msPerDay_def)
  have f: "getUSDToAUDRateServer ?es (19742 * msPerDay) = 3 / 2"
    by (rule srv [THEN conjunct1, rule_format]) (simp add: k3, simp add: msPerDay_def)
  have g: "getUSDToAUDRateServer ?es (19726 * msPerDay + 3600000) = 7"
    by (rule srv [THEN conjunct2, THEN conjunct1, rule_format, where k = 19723])
       (simp add: k1, simp add: msPerDay_def)
  have h: "getUSDToAUDRateServer [(daysFromCivil 2024 1 1, 7), (daysFromCivil 2024 1 10, 9)]
     (isoDate 2024 1 4) = 7"
    by (rule srv [THEN conjunct2, THEN conjunct2, THEN conjunct1, rule_format])
       (simp add: dateKey_def isoDate_def msPerDay_def)
  have i: "getUSDToAUDRateServer [(daysFromCivil 2024 1 1, 7), (daysFromCivil 2024 1 10, 9)]
     (isoDate 2024 1 20) = 3 / 2"
    by (rule srv [THEN conjunct2, THEN conjunct2, THEN conjunct2, rule_format])
       (simp add: dateKey_def isoDate_def msPerDay_def)
  from a b c d e f g h i show ?thesis by blast
qed

text \<open>Claim C6 as stated fails for server.js: with rates 3 for the day before and 4 for
  the day after, one second after midnight the day after is nearer in time and 4 is
  returned, where the probe of main.js returns 3; with a rate only 7 days earlier, at the
  last millisecond of the day that entry is more than 7 times 24 hours away and 1.5 is
  returned, where the probe of main.js returns 3.\<close>

theorem getUSDToAUDRate_server_counterexample:
  "getUSDToAUDRateServer [(19722, 3), (19724, 4)] (19723 * msPerDay + 1000) = 4 \<and>
   getUSDToAUDRate [19722 \<mapsto> 3, 19724 \<mapsto> 4] (19723 * msPerDay + 1000) = 3 \<and>
   getUSDToAUDRateServer [(19716, 3)] (19723 * msPerDay + 86399999) = 3 / 2 \<and>
   getUSDToAUDRate [19716 \<mapsto> 3] (19723 * msPerDay + 86399999) = 3"
proof -
  have k: "dateKey (19723 * msPerDay + 1000) = 19723"
    "dateKey (19723 * msPerDay + 86399999) = 19723"
    by (simp_all add: dateKey_def msPerDay_def)
  have a: "getUSDToAUDRateServer [(19722, 3), (19724, 4)] (19723 * msPerDay + 1000) = 4"
    by (simp add: getUSDToAUDRateServer_def k nearestScan_Cons) (simp add: msPerDay_def)
  have b: "getUSDToAUDRate [19722 \<mapsto> 3, 19724 \<mapsto> 4] (19723 * msPerDay + 1000) = 3"
    by (simp add: getUSDToAUDRate_def k nearestLoop.simps dateKey_addDays)
  have c: "getUSDToAUDRateServer [(19716, 3)] (19723 * msPerDay + 86399999) = 3 / 2"
    by (simp add: getUSDToAUDRateServer_def k nearestScan_Cons)
  have d: "getUSDToAUDRate [19716 \<mapsto> 3] (19723 * msPerDay + 86399999) = 3"
    by (simp add: getUSDToAUDRate_def k nearestLoop.simps dateKey_addDays)
  from a b c d show ?thesis by simp
qed

text \<open>
  Claim C9. \<open>convertCurrency\<close> returns the amount unchanged when source and target
  currency are the same, multiplies by the rate of the date from USD to AUD, divides by it
  from AUD to USD, and returns the amount unchanged for every target code it does not
  know. It has no error result. A source market other than \<open>AU\<close> counts as USD.
\<close>

theorem convertCurrency_cases:
  "(fromMarket = ''AU'' \<and> (toCurrency = ''AU'' \<or> toCurrency = ''AUD'') \<longrightarrow>
      convertCurrency t a fromMarket toCurrency d = a) \<and>
   (fromMarket \<noteq> ''AU'' \<and> (toCurrency = ''US'' \<or> toCurrency = ''USD'') \<longrightarrow>
      convertCurrency t a fromMarket toCurrency d = a) \<and>
   (fromMarket \<noteq> ''AU'' \<and> (toCurrency = ''AU'' \<or> toCurrency = ''AUD'') \<longrightarrow>
      convertCurrency t a fromMarket toCurrency d = a * getUSDToAUDRate t d) \<and>
   (fromMarket = ''AU'' \<and> (toCurrency = ''US'' \<or> toCurrency = ''USD'') \<longrightarrow>
      convertCurrency t a fromMarket toCurrency d = a / getUSDToAUDRate t d) \<and>
   (toCurrency \<notin> {''AU'', ''AUD'', ''US'', ''USD''} \<longrightarrow>
      convertCurrency t a fromMarket toCurrency d = a)"
  by (auto simp add: convertCurrency_def Let_def)

theorem convertCurrency_cases_witness:
  "convertCurrency [19723 \<mapsto> 8 / 5] 100 ''AU'' ''AUD'' (19723 * msPerDay) = 100 \<and>
   convertCurrency [19723 \<mapsto> 8 / 5] 100 ''US'' ''USD'' (19723 * msPerDay) = 100 \<and>
   convertCurrency [19723 \<mapsto> 8 / 5] 100 ''US'' ''AUD'' (19723 * msPerDay) = 160 \<and>
   convertCurrency [19723 \<mapsto> 8 / 5] 100 ''AU'' ''USD'' (19723 * msPerDay) = 125 / 2 \<and>
   convertCurrency [19723 \<mapsto> 8 / 5] 100 ''US'' ''EUR'' (19723 * msPerDay) = 100"
proof -
  let ?t = "[19723 \<mapsto> 8 / 5] :: rates"
  let ?d = "19723 * msPerDay"
  have r: "getUSDToAUDRate ?t ?d = 8 / 5"
    by (simp add: getUSDToAUDRate_def dateKey_def msPerDay_def)
  show ?thesis
    using convertCurrency_cases [of "''AU''" "''AUD''" ?t 100 ?d]
      convertCurrency_cases [of "''US''" "''USD''" ?t 100 ?d]
      convertCurrency_cases [of "''US''" "''AUD''" ?t 100 ?d]
      convertCurrency_cases [of "''AU''" "''USD''" ?t 100 ?d]
      convertCurrency_cases [of "''US''" "''EUR''" ?t 100 ?d]
    by (simp add: r)
qed

declare nearestLoopJS.simps [simp del]

lemma nearestLoop_positive_rat:
  "\<forall>k r. u k = Some r \<longrightarrow> 0 < r \<Longrightarrow> 0 < getUSDToAUDRate u d"
  using nearestLoop_positive [of u d 1]
  by (auto simp add: getUSDToAUDRate_def split: option.splits)

lemma nearestLoopJS_positive:
  assumes "\<forall>k v. t k = Some v \<longrightarrow> jsPositive v"
  shows "jsPositive (nearestLoopJS t d i)"
  using assms
proof (induction t d i rule: nearestLoopJS.induct)
  case (1 t d i)
  then show ?case
    by (subst nearestLoopJS.simps) (auto split: option.splits)
qed

lemma getUSDToAUDRateJS_positive:
  assumes "\<forall>k v. t k = Some v \<longrightarrow> jsPositive v"
  shows "jsPositive (getUSDToAUDRateJS t d)"
  using assms nearestLoopJS_positive [OF assms, of d 1]
  by (auto simp add: getUSDToAUDRateJS_def split: option.splits)

lemma jsPositive_finite:
  "jsPositive v \<Longrightarrow> v \<noteq> PosInfinity \<Longrightarrow> \<exists>r. v = Finite r \<and> 0 < r"
  by (cases v) simp_all

lemma nearestLoopJS_not_infinite:
  assumes "\<forall>k. t k \<noteq> Some PosInfinity"
  shows "nearestLoopJS t d i \<noteq> PosInfinity"
  using assms
proof (induction t d i rule: nearestLoopJS.induct)
  case (1 t d i)
  then show ?case
    by (subst nearestLoopJS.simps) (auto split: option.splits)
qed

lemma nearestLoopJS_finite:
  assumes "\<forall>k v. t k = Some v \<longrightarrow> (\<exists>r. v = Finite r \<and> 0 < r)"
  shows "\<exists>r. nearestLoopJS t d i = Finite r \<and> 0 < r"
proof (rule jsPositive_finite)
  have "\<forall>k v. t k = Some v \<longrightarrow> jsPositive v"
  proof (intro allI impI)
    fix k v
    assume "t k = Some v"
    with assms obtain r where "v = Finite r" "0 < r" by blast
    then show "jsPositive v" by simp
  qed
  then show "jsPositive (nearestLoopJS t d i)" by (rule nearestLoopJS_positive)
  have "\<forall>k. t k \<noteq> Some PosInfinity"
  proof
    fix k
    show "t k \<noteq> Some PosInfinity"
    proof
      assume "t k = Some PosInfinity"
      with assms obtain r where "PosInfinity = Finite r" by blast
      then show False by simp
    qed
  qed
  then show "nearestLoopJS t d i \<noteq> PosInfinity" by (rule nearestLoopJS_not_infinite)
qed

lemma getUSDToAUDRateJS_finite:
  assumes "\<forall>k v. t k = Some v \<longrightarrow> (\<exists>r. v = Finite r \<and> 0 < r)"
  shows "\<exists>r. getUSDToAUDRateJS t d = Finite r \<and> 0 < r"
  using assms nearestLoopJS_finite [OF assms, of d 1]
  by (auto simp add: getUSDToAUDRateJS_def split: option.splits)

lemma nearestLoopJS_Finite:
  "nearestLoopJS ((\<lambda>k. map_option Finite (u k))) d i = Finite (nearestLoop u d i)"
proof (induction u d i rule: nearestLoop.induct)
  case (1 u d i)
  show ?case
    by (subst nearestLoopJS.simps, subst nearestLoop.simps)
       (use 1 in \<open>auto split: option.splits\<close>)
qed

lemma getUSDToAUDRateJS_Finite:
  "getUSDToAUDRateJS ((\<lambda>k. map_option Finite (u k))) d = Finite (getUSDToAUDRate u d)"
  by (auto simp add: getUSDToAUDRateJS_def getUSDToAUDRate_def nearestLoopJS_Finite
      split: option.splits)

lemma convertCurrencyJS_Finite:
  assumes "getUSDToAUDRate u d \<noteq> 0"
  shows "convertCurrencyJS ((\<lambda>k. map_option Finite (u k))) (Finite a) fromMarket toCurrency d =
         Finite (convertCurrency u a fromMarket toCurrency d)"
  using assms
  by (simp add: convertCurrencyJS_def convertCurrency_def getUSDToAUDRateJS_Finite Let_def)

lemma loadRates_positive:
  assumes "\<forall>k v. t k = Some v \<longrightarrow> jsPositive v"
  shows "\<forall>k v. loadRates rows t k = Some v \<longrightarrow> jsPositive v"
  using assms
proof (induction rows arbitrary: t)
  case Nil
  then show ?case by simp
next
  case (Cons row rows)
  obtain k x where row: "row = (k, x)" by (cases row)
  show ?case
  proof (cases "jsPositive x")
    case True
    with Cons.prems have "\<forall>k' v. (t(k \<mapsto> x)) k' = Some v \<longrightarrow> jsPositive v" by simp
    then have "\<forall>k' v. loadRates rows (t(k \<mapsto> x)) k' = Some v \<longrightarrow> jsPositive v"
      by (rule Cons.IH)
    moreover have "loadRates (row # rows) t = loadRates rows (t(k \<mapsto> x))"
      using True by (simp add: row)
    ultimately show ?thesis by (simp only:)
  next
    case False
    then have "loadRates (row # rows) t = loadRates rows t" by (simp add: row)
    with Cons.IH [OF Cons.prems] show ?thesis by (simp only:)
  qed
qed

text \<open>
  Claim C10, as the code has it. On a rate table whose values are all strictly positive,
  and so on every table that the loaders build, \<open>getUSDToAUDRate\<close> is strictly positive
  for every date, whether it comes from the exact day, from the probe of the 7 days around
  it, or from the 1.5 fallback: the AUD to USD branch of \<open>convertCurrency\<close> never
  divides by zero. Where the values of the table are moreover finite, the rate is finite
  and every conversion of a finite amount gives a finite number, the one that the
  converter on rationals computes (the rounding and overflow of doubles are not in the
  model). The loaders also store Infinity, which is greater than 0.
\<close>

theorem rate_positive_conversion_finite_on_finite_rates:
  "((\<forall>k v. t k = Some v \<longrightarrow> jsPositive v) \<longrightarrow>
      jsPositive (getUSDToAUDRateJS t d) \<and>
      getUSDToAUDRateJS t d \<noteq> Finite 0 \<and>
      (\<forall>k v. loadRates rows t k = Some v \<longrightarrow> jsPositive v) \<and>
      jsPositive (getUSDToAUDRateJS (loadRates rows t) d)) \<and>
   jsPositive (getUSDToAUDRateJS (loadRates rows Map.empty) d) \<and>
   ((\<forall>k v. t k = Some v \<longrightarrow> (\<exists>r. v = Finite r \<and> 0 < r)) \<longrightarrow>
      (\<exists>r. getUSDToAUDRateJS t d = Finite r \<and> 0 < r \<and>
           convertCurrencyJS t (Finite a) ''AU'' ''USD'' d = Finite (a / r) \<and>
           convertCurrencyJS t (Finite a) ''US'' ''AUD'' d = Finite (a * r)) \<and>
      (\<exists>x. convertCurrencyJS t (Finite a) fromMarket toCurrency d = Finite x)) \<and>
   ((\<forall>k r. u k = Some r \<longrightarrow> 0 < r) \<longrightarrow>
      0 < getUSDToAUDRate u d \<and>
      getUSDToAUDRateJS ((\<lambda>k. map_option Finite (u k))) d = Finite (getUSDToAUDRate u d) \<and>
      convertCurrencyJS ((\<lambda>k. map_option Finite (u k))) (Finite a) fromMarket toCurrency d =
        Finite (convertCurrency u a fromMarket toCurrency d) \<and>
      convertCurrency u a ''AU'' ''USD'' d * getUSDToAUDRate u d = a)"
proof (intro conjI impI)
  assume pos: "\<forall>k v. t k = Some v \<longrightarrow> jsPositive v"
  then show p: "jsPositive (getUSDToAUDRateJS t d)" by (rule getUSDToAUDRateJS_positive)
  then show "getUSDToAUDRateJS t d \<noteq> Finite 0" by auto
  from pos show l: "\<forall>k v. loadRates rows t k = Some v \<longrightarrow> jsPositive v"
    by (rule loadRates_positive)
  then show "jsPositive (getUSDToAUDRateJS (loadRates rows t) d)"
    by (rule getUSDToAUDRateJS_positive)
next
  have "\<forall>k v. (Map.empty :: jsRates) k = Some v \<longrightarrow> jsPositive v" by simp
  then have "\<forall>k v. loadRates rows Map.empty k = Some v \<longrightarrow> jsPositive v"
    by (rule loadRates_positive)
  then show "jsPositive (getUSDToAUDRateJS (loadRates rows Map.empty) d)"
    by (rule getUSDToAUDRateJS_positive)
next
  assume fin: "\<forall>k v. t k = Some v \<longrightarrow> (\<exists>r. v = Finite r \<and> 0 < r)"
  then obtain r where r: "getUSDToAUDRateJS t d = Finite r" "0 < r"
    using getUSDToAUDRateJS_finite by blast
  then have "getUSDToAUDRateJS t d = Finite r \<and> 0 < r \<and>
           convertCurrencyJS t (Finite a) ''AU'' ''USD'' d = Finite (a / r) \<and>
           convertCurrencyJS t (Finite a) ''US'' ''AUD'' d = Finite (a * r)"
    by (simp add: convertCurrencyJS_def)
  then show "\<exists>r. getUSDToAUDRateJS t d = Finite r \<and> 0 < r \<and>
           convertCurrencyJS t (Finite a) ''AU'' ''USD'' d = Finite (a / r) \<and>
           convertCurrencyJS t (Finite a) ''US'' ''AUD'' d = Finite (a * r)" by blast
  from r show "\<exists>x. convertCurrencyJS t (Finite a) fromMarket toCurrency d = Finite x"
    by (simp add: convertCurrencyJS_def Let_def)
next
  assume pos: "\<forall>k r. u k = Some r \<longrightarrow> 0 < r"
  then show p: "0 < getUSDToAUDRate u d" by (rule nearestLoop_positive_rat)
  show "getUSDToAUDRateJS ((\<lambda>k. map_option Finite (u k))) d = Finite (getUSDToAUDRate u d)"
    by (rule getUSDToAUDRateJS_Finite)
  from p show "convertCurrencyJS ((\<lambda>k. map_option Finite (u k))) (Finite a) fromMarket toCurrency d =
        Finite (convertCurrency u a fromMarket toCurrency d)"
    by (intro convertCurrencyJS_Finite) simp
  from p show "convertCurrency u a ''AU'' ''USD'' d * getUSDToAUDRate u d = a"
    by (simp add: convertCurrency_def)
qed

theorem rate_positive_conversion_finite_on_finite_rates_witness:
  "jsPositive (getUSDToAUDRateJS [19723 \<mapsto> PosInfinity] (19725 * msPerDay)) \<and>
   jsPositive (getUSDToAUDRateJS
     (loadRates [(19800, Finite 0), (19801, NaN), (19802, Finite 2)] [19723 \<mapsto> PosInfinity])
     (19800 * msPerDay)) \<and>
   convertCurrencyJS [19723 \<mapsto> Finite (8 / 5)] (Finite 100) ''AU'' ''USD'' (19725 * msPerDay)
     = Finite (125 / 2) \<and>
   convertCurrencyJS [19723 \<mapsto> Finite (8 / 5)] (Finite 100) ''US'' ''AUD'' (19725 * msPerDay)
     = Finite 160 \<and>
   convertCurrency [19723 \<mapsto> 8 / 5] 100 ''AU'' ''USD'' (19725 * msPerDay) = 125 / 2 \<and>
   0 < getUSDToAUDRate [19723 \<mapsto> 8 / 5] (19725 * msPerDay)"
proof -
  let ?inf = "[19723 \<mapsto> PosInfinity] :: jsRates"
  let ?fin = "[19723 \<mapsto> Finite (8 / 5)] :: jsRates"
  let ?u = "[19723 \<mapsto> 8 / 5] :: rates"
  let ?d = "19725 * msPerDay"
  let ?rows = "[(19800, Finite 0), (19801, NaN), (19802, Finite 2)]"
  note T = rate_positive_conversion_finite_on_finite_rates
  have k: "dateKey ?d = 19725" by (simp add: dateKey_def msPerDay_def)
  have h1: "\<forall>k v. ?inf k = Some v \<longrightarrow> jsPositive v" by simp
  note A = T [of ?inf ?d ?rows, THEN conjunct1, THEN mp, OF h1]
  have w1: "jsPositive (getUSDToAUDRateJS ?inf ?d)" using A by (rule conjunct1)
  have w2: "jsPositive (getUSDToAUDRateJS (loadRates ?rows ?inf) (19800 * msPerDay))"
    using T [of ?inf "19800 * msPerDay" ?rows, THEN conjunct1, THEN mp, OF h1] by simp
  have h2: "\<forall>k v. ?fin k = Some v \<longrightarrow> (\<exists>r. v = Finite r \<and> 0 < r)"
  proof (intro allI impI)
    fix k v
    assume "?fin k = Some v"
    then have "v = Finite (8 / 5)" by (simp split: if_splits)
    then show "\<exists>r. v = Finite r \<and> 0 < r" by (intro exI [of _ "8 / 5"]) simp
  qed
  have rj: "getUSDToAUDRateJS ?fin ?d = Finite (8 / 5)"
    by (simp add: getUSDToAUDRateJS_def nearestLoopJS.simps dateKey_addDays k)
  note F = T [of ?fin ?d ?rows 100 "''AU''" "''USD''", THEN conjunct2, THEN conjunct2,
      THEN conjunct1, THEN mp, OF h2, THEN conjunct1]
  from F obtain r where r: "getUSDToAUDRateJS ?fin ?d = Finite r"
    and c1: "convertCurrencyJS ?fin (Finite 100) ''AU'' ''USD'' ?d = Finite (100 / r)"
    and c2: "convertCurrencyJS ?fin (Finite 100) ''US'' ''AUD'' ?d = Finite (100 * r)"
    by blast
  from r rj have r85: "r = 8 / 5" by simp
  have w3: "convertCurrencyJS ?fin (Finite 100) ''AU'' ''USD'' ?d = Finite (125 / 2)"
    using c1 unfolding r85 by simp
  have w4: "convertCurrencyJS ?fin (Finite 100) ''US'' ''AUD'' ?d = Finite 160"
    using c2 unfolding r85 by simp
  have h3: "\<forall>k r. ?u k = Some r \<longrightarrow> 0 < r" by simp
  have ru: "getUSDToAUDRate ?u ?d = 8 / 5"
    by (simp add: getUSDToAUDRate_def nearestLoop.simps dateKey_addDays k)
  note U = T [of _ ?d _ 100 "''AU''" "''USD''" ?u, THEN conjunct2, THEN conjunct2,
      THEN conjunct2, THEN mp, OF h3]
  have w5: "convertCurrency ?u 100 ''AU'' ''USD'' ?d = 125 / 2"
    using U [THEN conjunct2, THEN conjunct2, THEN conjunct2] by (simp add: ru)
  have w6: "0 < getUSDToAUDRate ?u ?d" using U by (rule conjunct1)
  from w1 w2 w3 w4 w5 w6 show ?thesis by simp
qed

text \<open>Claim C10 as stated fails: the loaders store the rate Infinity (it is not NaN and
  greater than 0); on that table, whose values are all strictly positive, the conversion of
  the finite amount 100 from USD to AUD is Infinity and that of the amount 0 is NaN.\<close>

theorem conversion_infinite_counterexample:
  "loadRates [(19723, PosInfinity)] Map.empty 19723 = Some PosInfinity \<and>
   convertCurrencyJS (loadRates [(19723, PosInfinity)] Map.empty) (Finite 100) ''US'' ''AUD''
     (19723 * msPerDay) = PosInfinity \<and>
   convertCurrencyJS (loadRates [(19723, PosInfinity)] Map.empty) (Finite 0) ''US'' ''AUD''
     (19723 * msPerDay) = NaN"
proof -
  have k: "dateKey (19723 * msPerDay) = 19723" by (simp add: dateKey_def msPerDay_def)
  show ?thesis by (simp add: convertCurrencyJS_def getUSDToAUDRateJS_def k)
qed


section \<open>Properties of the FIFO lot engine\<close>

declare sellLoop.simps [simp del]

lemma sellLoop_done: "\<not> 0 < r \<Longrightarrow> sellLoop r q c = (r, q, c)"
  by (cases q) (simp_all add: sellLoop.simps)

lemma fifoTakes_zero: "\<forall>x\<in>set qs. 0 < x \<Longrightarrow> fifoTakes 0 qs = map (\<lambda>x. 0) qs"
  by (induction qs) (simp_all add: min_def)

lemma reduceHolding_zero: "reduceHolding h 0 = h"
  by (simp add: reduceHolding_def)

lemma reduceHolding_qty: "holding_qty (reduceHolding h k) = holding_qty h - k"
  by (simp add: reduceHolding_def)

lemma map2_reduce_zero:
  "length xs = length q \<Longrightarrow> map2 reduceHolding q (map (\<lambda>x. 0) xs) = q"
  by (induction xs q rule: list_induct2) (simp_all add: reduceHolding_zero)

lemma map2_cost_zero:
  "length xs = length q \<Longrightarrow>
     sum_list (map2 (\<lambda>h k. costPerShare h * k) q (map (\<lambda>x. 0) xs)) = 0"
  by (induction xs q rule: list_induct2) simp_all

lemma sum_zero: "sum_list (map (\<lambda>x. 0::rat) xs) = 0"
  by (induction xs) simp_all

lemma sellLoop_fifoTakes:
  assumes "\<forall>h\<in>set q. 0 < holding_qty h" and "0 \<le> r"
  shows "sellLoop r q c =
     (r - sum_list (fifoTakes r (map holding_qty q)),
      filter (\<lambda>h. 0 < holding_qty h) (map2 reduceHolding q (fifoTakes r (map holding_qty q))),
      c + sum_list (map2 (\<lambda>h k. costPerShare h * k) q (fifoTakes r (map holding_qty q))))"
  using assms
proof (induction q arbitrary: r c)
  case Nil
  show ?case by (simp add: sellLoop.simps)
next
  case (Cons h rest)
  have hpos: "0 < holding_qty h" and restpos: "\<forall>x\<in>set rest. 0 < holding_qty x"
    using Cons.prems(1) by simp_all
  show ?case
  proof (cases "0 < r")
    case False
    with Cons.prems(2) have r0: "r = 0" by simp
    have z: "fifoTakes 0 (map holding_qty (h # rest)) = map (\<lambda>x. 0) (map holding_qty (h # rest))"
      using Cons.prems(1) by (intro fifoTakes_zero) auto
    have keep: "filter (\<lambda>h. 0 < holding_qty h) rest = rest"
      using restpos by (intro filter_True) auto
    show ?thesis
      unfolding r0 z
      by (simp add: sellLoop_done sum_zero comp_def map2_reduce_zero map2_cost_zero keep hpos
          reduceHolding_zero)
  next
    case True
    let ?k = "min r (holding_qty h)"
    have k0: "0 \<le> r - ?k" by (simp add: min_def)
    show ?thesis
    proof (cases "holding_qty h \<le> r")
      case le: True
      then have k: "?k = holding_qty h" by (simp add: min_def)
      have step: "sellLoop r (h # rest) c =
          sellLoop (r - holding_qty h) rest (c + costPerShare h * holding_qty h)"
        using True by (subst sellLoop.simps) (simp add: k)
      have k0': "0 \<le> r - holding_qty h" using le by simp
      show ?thesis
        unfolding step Cons.IH [OF restpos k0']
        by (simp add: k reduceHolding_qty)
    next
      case gt: False
      then have k: "?k = r" by (simp add: min_def)
      have step: "sellLoop r (h # rest) c =
          sellLoop 0 (reduceHolding h r # rest) (c + costPerShare h * r)"
        using True gt by (subst sellLoop.simps) (simp add: k reduceHolding_def)
      have z: "fifoTakes 0 (map holding_qty rest) = map (\<lambda>x. 0) (map holding_qty rest)"
        using restpos by (intro fifoTakes_zero) auto
      have keep: "filter (\<lambda>h. 0 < holding_qty h) rest = rest"
        using restpos by (intro filter_True) auto
      have hk: "0 < holding_qty (reduceHolding h r)"
        using gt by (simp add: reduceHolding_def)
      show ?thesis
        unfolding step
        by (simp add: sellLoop_done k z map2_reduce_zero map2_cost_zero keep hk sum_zero comp_def)
    qed
  qed
qed

lemma replay_permutation:
  assumes "distinct (map date grp)" and "mset grp' = mset grp"
  shows "replay grp' = replay grp"
proof -
  have "set grp' = set grp" using assms(2) by (rule mset_eq_setD)
  moreover have "inj_on date (set grp)" using assms(1) by (simp add: distinct_map)
  ultimately have inj: "inj_on date (set grp')" by simp
  have "mset grp' = mset (sort_key date grp)" using assms(2) by simp
  then have "sort_key date grp' = sort_key date grp"
    using inj by (rule sort_key_inj_key_eq) simp
  then show ?thesis by (simp add: replay_def)
qed

lemma processTrade_sell_realized:
  assumes "side tr = ''Sell''"
  shows "realizedUSD (processTrade s tr) + realizedAUD (processTrade s tr) =
         realizedUSD s + realizedAUD s + realizedPnL tr (holdingsQueue s)"
  using assms
  by (simp add: processTrade_def realizedPnL_def Let_def split: prod.splits)

lemma replay_example:
  assumes "d1 < d2" "d2 < d3"
  shows "replay [plainTrade ''Buy'' 100 10 d1, plainTrade ''Buy'' 50 12 d2,
                 plainTrade ''Sell'' 120 20 d3] =
     \<lparr>holdingsQueue = [\<lparr>holding_qty = 30, costBasis = 360, costPerShare = 12,
                         currency = ''AUD'', holding_date = d2, isShort = False\<rparr>],
      realizedUSD = 0, realizedAUD = 120 * 20 - (100 * 10 + 20 * 12),
      buyUSD = 0, sellUSD = 0, buyAUD = 1600, sellAUD = 2400,
      totalBuyAmount = 1600, totalBuyQty = 150\<rparr>"
  using assms
  by (simp add: replay_def plainTrade_def processTrade_def tradeCurrency_def initialState_def
      sellLoop.simps Let_def)


text \<open>
  Claim C1. The FIFO engine replays the trades of a symbol in ascending date order: the
  replay folds over a sorted rearrangement of the group, and with distinct dates the order
  of the input does not matter. A sell that meets a queue of
  long lots takes \<open>min(remaining, head quantity)\<close> from the head lot, then from the next,
  as \<open>fifoTakes\<close> says, each at the per-unit cost of its lot; what it leaves of a lot stays
  in the queue, a lot taken whole leaves it. The realized gain of the sell is
  \<open>(amount - commission - fees)\<close> minus the cost of the units taken, and this is what the
  engine adds to the realized P&L. For Buy 100 at 10, Buy 50 at 12, Sell 120 at 20 without
  commission or fees the sell takes 100 and 20, the queue keeps 30 units of the second
  lot, and the gain is \<open>120 * 20 - (100 * 10 + 20 * 12)\<close>. One round of the loop, for
  any head lot, takes \<open>min(remaining, head quantity)\<close> at the head's per-unit cost and
  drops the head once its quantity is not positive.
\<close>

theorem fifo_sell_takes_oldest_lots_first:
  "(\<exists>ts. mset ts = mset grp \<and> sorted (map date ts) \<and>
         replay grp = foldl processTrade initialState ts) \<and>
   (distinct (map date grp) \<and> mset grp' = mset grp \<longrightarrow> replay grp' = replay grp) \<and>
   (0 < r \<longrightarrow>
      sellLoop r (h # rest) c =
        sellLoop (r - min r (holding_qty h))
          (if holding_qty h - min r (holding_qty h) \<le> 0 then rest
           else reduceHolding h (min r (holding_qty h)) # rest)
          (c + costPerShare h * min r (holding_qty h))) \<and>
   ((\<forall>h\<in>set q. 0 < holding_qty h) \<and> 0 \<le> qty tr \<longrightarrow>
      sellLoop (qty tr) q 0 =
        (qty tr - sum_list (fifoTakes (qty tr) (map holding_qty q)),
         filter (\<lambda>h. 0 < holding_qty h)
           (map2 reduceHolding q (fifoTakes (qty tr) (map holding_qty q))),
         sum_list (map2 (\<lambda>h k. costPerShare h * k) q
           (fifoTakes (qty tr) (map holding_qty q)))) \<and>
      realizedPnL tr q =
        (amount tr - commission tr - fees tr)
        - sum_list (map2 (\<lambda>h k. costPerShare h * k) q
            (fifoTakes (qty tr) (map holding_qty q)))) \<and>
   (side tr = ''Sell'' \<longrightarrow>
      realizedUSD (processTrade s tr) + realizedAUD (processTrade s tr) =
      realizedUSD s + realizedAUD s + realizedPnL tr (holdingsQueue s)) \<and>
   (d1 < d2 \<and> d2 < d3 \<longrightarrow>
      replay [plainTrade ''Buy'' 100 10 d1, plainTrade ''Buy'' 50 12 d2,
              plainTrade ''Sell'' 120 20 d3] =
        \<lparr>holdingsQueue = [\<lparr>holding_qty = 30, costBasis = 360, costPerShare = 12,
                            currency = ''AUD'', holding_date = d2, isShort = False\<rparr>],
         realizedUSD = 0, realizedAUD = 120 * 20 - (100 * 10 + 20 * 12),
         buyUSD = 0, sellUSD = 0, buyAUD = 1600, sellAUD = 2400,
         totalBuyAmount = 1600, totalBuyQty = 150\<rparr>) \<and>
   fifoTakes 120 [100, 50] = [100, 20]"
proof (intro conjI impI)
  have "mset (sort_key date grp) = mset grp \<and> sorted (map date (sort_key date grp)) \<and>
      replay grp = foldl processTrade initialState (sort_key date grp)"
    by (simp add: replay_def)
  then show "\<exists>ts. mset ts = mset grp \<and> sorted (map date ts) \<and>
         replay grp = foldl processTrade initialState ts" by blast
next
  assume "distinct (map date grp) \<and> mset grp' = mset grp"
  then show "replay grp' = replay grp" by (simp add: replay_permutation)
next
  assume "0 < r"
  then show "sellLoop r (h # rest) c =
        sellLoop (r - min r (holding_qty h))
          (if holding_qty h - min r (holding_qty h) \<le> 0 then rest
           else reduceHolding h (min r (holding_qty h)) # rest)
          (c + costPerShare h * min r (holding_qty h))"
    by (subst sellLoop.simps) (simp add: reduceHolding_def)
next
  assume h: "(\<forall>h\<in>set q. 0 < holding_qty h) \<and> 0 \<le> qty tr"
  then show loop: "sellLoop (qty tr) q 0 =
        (qty tr - sum_list (fifoTakes (qty tr) (map holding_qty q)),
         filter (\<lambda>h. 0 < holding_qty h)
           (map2 reduceHolding q (fifoTakes (qty tr) (map holding_qty q))),
         sum_list (map2 (\<lambda>h k. costPerShare h * k) q
           (fifoTakes (qty tr) (map holding_qty q))))"
    using sellLoop_fifoTakes [of q "qty tr" 0] by simp
  show "realizedPnL tr q =
        (amount tr - commission tr - fees tr)
        - sum_list (map2 (\<lambda>h k. costPerShare h * k) q
            (fifoTakes (qty tr) (map holding_qty q)))"
    unfolding realizedPnL_def loop by simp
next
  assume "side tr = ''Sell''"
  then show "realizedUSD (processTrade s tr) + realizedAUD (processTrade s tr) =
      realizedUSD s + realizedAUD s + realizedPnL tr (holdingsQueue s)"
    by (rule processTrade_sell_realized)
next
  assume "d1 < d2 \<and> d2 < d3"
  then show "replay [plainTrade ''Buy'' 100 10 d1, plainTrade ''Buy'' 50 12 d2,
              plainTrade ''Sell'' 120 20 d3] =
        \<lparr>holdingsQueue = [\<lparr>holding_qty = 30, costBasis = 360, costPerShare = 12,
                            currency = ''AUD'', holding_date = d2, isShort = False\<rparr>],
         realizedUSD = 0, realizedAUD = 120 * 20 - (100 * 10 + 20 * 12),
         buyUSD = 0, sellUSD = 0, buyAUD = 1600, sellAUD = 2400,
         totalBuyAmount = 1600, totalBuyQty = 150\<rparr>"
    using replay_example [of d1 d2 d3] by simp
next
  show "fifoTakes 120 [100, 50] = [100, 20]" by simp
qed

theorem fifo_sell_takes_oldest_lots_first_witness:
  "replay [plainTrade ''Sell'' 120 20 3, plainTrade ''Buy'' 100 10 1,
           plainTrade ''Buy'' 50 12 2] =
     \<lparr>holdingsQueue = [\<lparr>holding_qty = 30, costBasis = 360, costPerShare = 12,
                         currency = ''AUD'', holding_date = 2, isShort = False\<rparr>],
      realizedUSD = 0, realizedAUD = 1160,
      buyUSD = 0, sellUSD = 0, buyAUD = 1600, sellAUD = 2400,
      totalBuyAmount = 1600, totalBuyQty = 150\<rparr> \<and>
   realizedPnL (plainTrade ''Sell'' 120 20 3)
     [\<lparr>holding_qty = 100, costBasis = 1000, costPerShare = 10, currency = ''AUD'',
       holding_date = 1, isShort = False\<rparr>,
      \<lparr>holding_qty = 50, costBasis = 600, costPerShare = 12, currency = ''AUD'',
       holding_date = 2, isShort = False\<rparr>] = 1160 \<and>
   realizedAUD (processTrade initialState (plainTrade ''Sell'' 120 20 3)) = 2400 \<and>
   sellLoop 120
     [\<lparr>holding_qty = 100, costBasis = 1000, costPerShare = 10, currency = ''AUD'',
       holding_date = 1, isShort = False\<rparr>,
      \<lparr>holding_qty = 50, costBasis = 600, costPerShare = 12, currency = ''AUD'',
       holding_date = 2, isShort = False\<rparr>] 0 =
   sellLoop 20
     [\<lparr>holding_qty = 50, costBasis = 600, costPerShare = 12, currency = ''AUD'',
       holding_date = 2, isShort = False\<rparr>] 1000"
proof -
  let ?b1 = "plainTrade ''Buy'' 100 10 1"
  let ?b2 = "plainTrade ''Buy'' 50 12 2"
  let ?s = "plainTrade ''Sell'' 120 20 3"
  let ?q = "[\<lparr>holding_qty = 100, costBasis = 1000, costPerShare = 10, currency = ''AUD'',
       holding_date = 1, isShort = False\<rparr>,
      \<lparr>holding_qty = 50, costBasis = 600, costPerShare = 12, currency = ''AUD'',
       holding_date = 2, isShort = False\<rparr>]"
  note inst = fifo_sell_takes_oldest_lots_first
    [of "[?b1, ?b2, ?s]" "[?s, ?b1, ?b2]" 120 "hd ?q" "tl ?q" 0 ?q ?s initialState 1 2 3,
      THEN conjunct2]
  have "distinct (map date [?b1, ?b2, ?s]) \<and> mset [?s, ?b1, ?b2] = mset [?b1, ?b2, ?s]"
    by (simp add: plainTrade_def)
  with inst have a: "replay [?s, ?b1, ?b2] = replay [?b1, ?b2, ?s]" by blast
  have "(0::rat) < 120" by simp
  from inst [THEN conjunct2, THEN conjunct1, THEN mp, OF this]
  have e: "sellLoop 120 ?q 0 = sellLoop 20 (tl ?q) 1000" by simp
  note inst = inst [THEN conjunct2, THEN conjunct2]
  have "(1::int) < 2 \<and> (2::int) < 3" by simp
  with inst have b: "replay [?b1, ?b2, ?s] =
        \<lparr>holdingsQueue = [\<lparr>holding_qty = 30, costBasis = 360, costPerShare = 12,
                            currency = ''AUD'', holding_date = 2, isShort = False\<rparr>],
         realizedUSD = 0, realizedAUD = 120 * 20 - (100 * 10 + 20 * 12),
         buyUSD = 0, sellUSD = 0, buyAUD = 1600, sellAUD = 2400,
         totalBuyAmount = 1600, totalBuyQty = 150\<rparr>" by blast
  have "(\<forall>h\<in>set ?q. 0 < holding_qty h) \<and> 0 \<le> qty ?s"
    by (simp add: plainTrade_def)
  with inst have "realizedPnL ?s ?q =
        (amount ?s - commission ?s - fees ?s)
        - sum_list (map2 (\<lambda>h k. costPerShare h * k) ?q
            (fifoTakes (qty ?s) (map holding_qty ?q)))" by blast
  then have c: "realizedPnL ?s ?q = 1160" by (simp add: plainTrade_def)
  have "side ?s = ''Sell''" by (simp add: plainTrade_def)
  with inst have "realizedUSD (processTrade initialState ?s)
      + realizedAUD (processTrade initialState ?s) =
      realizedUSD initialState + realizedAUD initialState
      + realizedPnL ?s (holdingsQueue initialState)" by blast
  moreover have "realizedUSD (processTrade initialState ?s) = 0"
    by (simp add: processTrade_def plainTrade_def tradeCurrency_def initialState_def
        sellLoop.simps Let_def)
  ultimately have d: "realizedAUD (processTrade initialState ?s) = 2400"
    by (simp add: realizedPnL_def initialState_def sellLoop.simps plainTrade_def)
  from a b c d e show ?thesis by simp
qed

lemma parseOptionsSymbol_ACME: "parseOptionsSymbol now ''ACME'' = None"
  by (simp add: parseOptionsSymbol_def isUpperAZ_def)

text \<open>
  Claim C4, as the code has it. For a symbol that is not an option, a sell with no prior
  lots followed by a buy of the same quantity gets no synthetic close and ends at a net
  position of 0; the buy does not consume the short lot that the sell opened: the queue
  ends with that short lot followed by the long lot of the buy.
\<close>

theorem short_sale_round_trip:
  "parseOptionsSymbol now symbol = None \<and> side s = ''Sell'' \<and> side b = ''Buy'' \<and>
   0 < qty s \<and> qty b = qty s \<and> date s \<le> date b \<longrightarrow>
     addExpiredOptionsLosses now symbol [s, b] = [s, b] \<and>
     holdingsQueue (replay (addExpiredOptionsLosses now symbol [s, b])) =
       [shortHolding s (qty s),
        \<lparr>holding_qty = qty b, costBasis = amount b + commission b + fees b,
         costPerShare = (amount b + commission b + fees b) / qty b,
         currency = tradeCurrency b, holding_date = date b, isShort = False\<rparr>] \<and>
     holding_qty (shortHolding s (qty s)) = - qty s \<and>
     netPosition (calculateFIFOPnL t now displayCurrency symbol [s, b]) = 0"
proof
  assume h: "parseOptionsSymbol now symbol = None \<and> side s = ''Sell'' \<and> side b = ''Buy'' \<and>
   0 < qty s \<and> qty b = qty s \<and> date s \<le> date b"
  have add: "addExpiredOptionsLosses now symbol [s, b] = [s, b]"
    using h by (simp add: addExpiredOptionsLosses_def)
  have srt: "sort_key date [s, b] = [s, b]" using h by simp
  have q: "holdingsQueue (replay [s, b]) =
       [shortHolding s (qty s),
        \<lparr>holding_qty = qty b, costBasis = amount b + commission b + fees b,
         costPerShare = (amount b + commission b + fees b) / qty b,
         currency = tradeCurrency b, holding_date = date b, isShort = False\<rparr>]"
    unfolding replay_def srt using h
    by (simp add: processTrade_def initialState_def sellLoop.simps Let_def)
  have sq: "holding_qty (shortHolding s (qty s)) = - qty s"
    by (simp add: shortHolding_def Let_def)
  have "netPosition (calculateFIFOPnL t now displayCurrency symbol [s, b]) = 0"
    unfolding calculateFIFOPnL_def add summarize_def using h
    by (simp add: Let_def q sq)
  with add q sq show "addExpiredOptionsLosses now symbol [s, b] = [s, b] \<and>
     holdingsQueue (replay (addExpiredOptionsLosses now symbol [s, b])) =
       [shortHolding s (qty s),
        \<lparr>holding_qty = qty b, costBasis = amount b + commission b + fees b,
         costPerShare = (amount b + commission b + fees b) / qty b,
         currency = tradeCurrency b, holding_date = date b, isShort = False\<rparr>] \<and>
     holding_qty (shortHolding s (qty s)) = - qty s \<and>
     netPosition (calculateFIFOPnL t now displayCurrency symbol [s, b]) = 0"
    by simp
qed

theorem short_sale_round_trip_witness:
  "map holding_qty (holdingsQueue (replay (addExpiredOptionsLosses 0 ''ACME''
      [plainTrade ''Sell'' 50 20 1, plainTrade ''Buy'' 50 15 2]))) = [- 50, 50] \<and>
   addExpiredOptionsLosses 0 ''ACME'' [plainTrade ''Sell'' 50 20 1, plainTrade ''Buy'' 50 15 2]
     = [plainTrade ''Sell'' 50 20 1, plainTrade ''Buy'' 50 15 2] \<and>
   netPosition (calculateFIFOPnL Map.empty 0 ''AUD'' ''ACME''
      [plainTrade ''Sell'' 50 20 1, plainTrade ''Buy'' 50 15 2]) = 0"
proof -
  let ?s = "plainTrade ''Sell'' 50 20 1"
  let ?b = "plainTrade ''Buy'' 50 15 2"
  have hyp: "parseOptionsSymbol 0 ''ACME'' = None \<and> side ?s = ''Sell'' \<and> side ?b = ''Buy'' \<and>
   0 < qty ?s \<and> qty ?b = qty ?s \<and> date ?s \<le> date ?b"
    by (simp add: parseOptionsSymbol_ACME plainTrade_def)
  note r = short_sale_round_trip [of 0 "''ACME''" ?s ?b Map.empty "''AUD''", THEN mp, OF hyp]
  have a: "addExpiredOptionsLosses 0 ''ACME'' [?s, ?b] = [?s, ?b]"
    using r by (rule conjunct1)
  have q: "map holding_qty (holdingsQueue (replay (addExpiredOptionsLosses 0 ''ACME'' [?s, ?b])))
      = [- qty ?s, qty ?b]"
    unfolding r [THEN conjunct2, THEN conjunct1]
    by (simp add: r [THEN conjunct2, THEN conjunct2, THEN conjunct1])
  have n: "netPosition (calculateFIFOPnL Map.empty 0 ''AUD'' ''ACME'' [?s, ?b]) = 0"
    by (rule r [THEN conjunct2, THEN conjunct2, THEN conjunct2])
  have v: "qty ?s = 50" "qty ?b = 50" by (simp_all add: plainTrade_def)
  show ?thesis unfolding q v using a n by simp
qed

text \<open>Claim C4 as stated fails: after Sell 50 at 20 and Buy 50 at 15 on a plain equity
  the queue is not empty, it holds a short lot of 50 and a long lot of 50.\<close>

theorem short_sale_round_trip_counterexample:
  "holdingsQueue (replay (addExpiredOptionsLosses 0 ''ACME''
      [plainTrade ''Sell'' 50 20 1, plainTrade ''Buy'' 50 15 2])) =
     [\<lparr>holding_qty = - 50, costBasis = - 1000, costPerShare = 20, currency = ''AUD'',
       holding_date = 1, isShort = True\<rparr>,
      \<lparr>holding_qty = 50, costBasis = 750, costPerShare = 15, currency = ''AUD'',
       holding_date = 2, isShort = False\<rparr>]"
  by (simp add: addExpiredOptionsLosses_def parseOptionsSymbol_ACME replay_def plainTrade_def
      processTrade_def initialState_def sellLoop.simps shortHolding_def tradeCurrency_def Let_def)

section \<open>Properties of the capital gains reporter\<close>

declare sellInWindow.simps [simp del]
declare sellOutsideWindow.simps [simp del]

lemma gain_qty_gainForLot: "gain_qty (gainForLot symbol tr l k) = k"
  by (simp add: gainForLot_def Let_def)

lemma sellInWindow_quantities:
  "sellInWindow symbol tr r hs gs = (r', hs', gs') \<Longrightarrow>
     sum_list (map gain_qty gs') = sum_list (map gain_qty gs) + (r - r') \<and>
     (0 < r' \<longrightarrow> hs' = [])"
proof (induction symbol tr r hs gs rule: sellInWindow.induct)
  case (1 symbol tr remainingQty gains)
  then show ?case by (simp add: sellInWindow.simps)
next
  case (2 symbol tr remainingQty l rest gains)
  show ?case
  proof (cases "0 < remainingQty")
    case True
    from "2.prems" True have
      "sellInWindow symbol tr (remainingQty - min remainingQty (lot_qty l))
          (if lot_qty l - min remainingQty (lot_qty l) = 0 then rest
           else l\<lparr>lot_qty := lot_qty l - min remainingQty (lot_qty l),
                  cost := cost l - cost l / lot_qty l * min remainingQty (lot_qty l)\<rparr> # rest)
          (gains @ [gainForLot symbol tr l (min remainingQty (lot_qty l))]) = (r', hs', gs')"
      by (simp add: sellInWindow.simps)
    from "2.IH" [OF True this] show ?thesis
      by (simp add: gain_qty_gainForLot)
  next
    case False
    with "2.prems" show ?thesis by (simp add: sellInWindow.simps)
  qed
qed

lemma sum_lot_qty_nonneg: "\<forall>l\<in>set hs. 0 < lot_qty l \<Longrightarrow> 0 \<le> sum_list (map lot_qty hs)"
  by (induction hs) auto

lemma sellInWindow_done: "\<not> 0 < r \<Longrightarrow> sellInWindow symbol tr r hs gs = (r, hs, gs)"
  by (cases hs) (simp_all add: sellInWindow.simps)

lemma sellInWindow_remaining:
  assumes "\<forall>l\<in>set hs. 0 < lot_qty l" and "0 \<le> r"
  shows "fst (sellInWindow symbol tr r hs gs) = max 0 (r - sum_list (map lot_qty hs))"
  using assms
proof (induction hs arbitrary: r gs)
  case Nil
  then show ?case by (simp add: sellInWindow.simps)
next
  case (Cons l rest)
  have lpos: "0 < lot_qty l" and restpos: "\<forall>x\<in>set rest. 0 < lot_qty x"
    using Cons.prems(1) by simp_all
  have nn: "0 \<le> sum_list (map lot_qty rest)" using restpos by (rule sum_lot_qty_nonneg)
  show ?case
  proof (cases "0 < r")
    case False
    with Cons.prems(2) lpos nn show ?thesis by (simp add: sellInWindow_done)
  next
    case True
    show ?thesis
    proof (cases "lot_qty l \<le> r")
      case le: True
      then have k: "min r (lot_qty l) = lot_qty l" by (simp add: min_def)
      have step: "sellInWindow symbol tr r (l # rest) gs =
          sellInWindow symbol tr (r - lot_qty l) rest (gs @ [gainForLot symbol tr l (lot_qty l)])"
        using True by (subst sellInWindow.simps) (simp add: k)
      have "0 \<le> r - lot_qty l" using le by simp
      from Cons.IH [OF restpos this] show ?thesis
        unfolding step by (simp add: diff_diff_eq)
    next
      case gt: False
      then have k: "min r (lot_qty l) = r" by (simp add: min_def)
      have step: "fst (sellInWindow symbol tr r (l # rest) gs) = 0"
        using True gt by (subst sellInWindow.simps) (simp add: k sellInWindow_done)
      show ?thesis unfolding step using gt nn by simp
    qed
  qed
qed

lemma sellLoop_remaining_empties:
  "sellLoop r q c = (r', q', c') \<Longrightarrow> 0 < r' \<Longrightarrow> q' = []"
proof (induction r q c rule: sellLoop.induct)
  case (1 remainingQtyToSell totalCostBasisSold)
  then show ?case by (simp add: sellLoop.simps)
next
  case (2 remainingQtyToSell h rest totalCostBasisSold)
  show ?case
  proof (cases "0 < remainingQtyToSell")
    case True
    from "2.prems"(1) True have
      "sellLoop (remainingQtyToSell - min remainingQtyToSell (holding_qty h))
          (if holding_qty h - min remainingQtyToSell (holding_qty h) \<le> 0 then rest
           else h\<lparr>holding_qty := holding_qty h - min remainingQtyToSell (holding_qty h),
                  costBasis := costBasis h
                    - costPerShare h * min remainingQtyToSell (holding_qty h)\<rparr> # rest)
          (totalCostBasisSold + costPerShare h * min remainingQtyToSell (holding_qty h))
        = (r', q', c')"
      by (simp add: sellLoop.simps)
    from "2.IH" [OF True this "2.prems"(2)] show ?thesis .
  next
    case False
    with "2.prems" show ?thesis by (simp add: sellLoop.simps)
  qed
qed

lemma inWindow_example:
  "inWindow (isoDate 2025 1 1) None (plainTrade s q p (isoDate 2024 7 1))"
  by (simp add: inWindow_def cutoffDateStart_def cutoffDateEnd_def plainTrade_def isoDate_def
      daysFromCivil_def msPerDay_def Let_def)

text \<open>
  Claim C3, as the code has it. The quantities of the records that a sell inside the window
  emits sum to the sell's quantity minus the residual that no lot covers: to
  \<open>min(sell quantity, total open quantity)\<close> when the open lots are long. A residual
  remains only when the holdings are used up; it produces no record, and the reporter
  leaves its holdings empty, without a short lot. It is \<open>calculateFIFOPnL\<close> whose queue
  then consists of one new short lot of minus the residual.
\<close>

theorem gain_quantities_sum_to_covered_quantity:
  "sum_list (map gain_qty (gainsOfSell symbol tr hs)) =
     qty tr - fst (sellInWindow symbol tr (qty tr) hs []) \<and>
   (0 < fst (sellInWindow symbol tr (qty tr) hs []) \<longrightarrow>
      fst (snd (sellInWindow symbol tr (qty tr) hs [])) = []) \<and>
   ((\<forall>l\<in>set hs. 0 < lot_qty l) \<and> 0 \<le> qty tr \<longrightarrow>
      sum_list (map gain_qty (gainsOfSell symbol tr hs)) =
        min (qty tr) (sum_list (map lot_qty hs))) \<and>
   (side tr = ''Sell'' \<and> inWindow now fy tr \<longrightarrow>
      gainsTrade now fy symbol (hs, gs) tr =
        (fst (snd (sellInWindow symbol tr (qty tr) hs [])), gs @ gainsOfSell symbol tr hs)) \<and>
   (side tr = ''Sell'' \<and> 0 < fst (sellLoop (qty tr) (holdingsQueue s) 0) \<longrightarrow>
      holdingsQueue (processTrade s tr) =
        [shortHolding tr (fst (sellLoop (qty tr) (holdingsQueue s) 0))] \<and>
      holding_qty (shortHolding tr (fst (sellLoop (qty tr) (holdingsQueue s) 0))) =
        - fst (sellLoop (qty tr) (holdingsQueue s) 0))"
proof -
  obtain r' hs' gs' where run: "sellInWindow symbol tr (qty tr) hs [] = (r', hs', gs')"
    by (cases "sellInWindow symbol tr (qty tr) hs []") auto
  from sellInWindow_quantities [OF run]
  have sum: "sum_list (map gain_qty gs') = qty tr - r'" and emp: "0 < r' \<longrightarrow> hs' = []"
    by simp_all
  have c1: "sum_list (map gain_qty (gainsOfSell symbol tr hs)) =
     qty tr - fst (sellInWindow symbol tr (qty tr) hs [])"
    using sum by (simp add: gainsOfSell_def run)
  have c2: "0 < fst (sellInWindow symbol tr (qty tr) hs []) \<longrightarrow>
      fst (snd (sellInWindow symbol tr (qty tr) hs [])) = []"
    using emp by (simp add: run)
  have c3: "(\<forall>l\<in>set hs. 0 < lot_qty l) \<and> 0 \<le> qty tr \<longrightarrow>
      sum_list (map gain_qty (gainsOfSell symbol tr hs)) =
        min (qty tr) (sum_list (map lot_qty hs))"
  proof
    assume h: "(\<forall>l\<in>set hs. 0 < lot_qty l) \<and> 0 \<le> qty tr"
    then have "fst (sellInWindow symbol tr (qty tr) hs []) =
        max 0 (qty tr - sum_list (map lot_qty hs))"
      by (intro sellInWindow_remaining) auto
    with c1 show "sum_list (map gain_qty (gainsOfSell symbol tr hs)) =
        min (qty tr) (sum_list (map lot_qty hs))"
      by (simp add: min_def max_def)
  qed
  have c4: "side tr = ''Sell'' \<and> inWindow now fy tr \<longrightarrow>
      gainsTrade now fy symbol (hs, gs) tr =
        (fst (snd (sellInWindow symbol tr (qty tr) hs [])), gs @ gainsOfSell symbol tr hs)"
    by (simp add: gainsTrade_def gainsOfSell_def run)
  have c5: "side tr = ''Sell'' \<and> 0 < fst (sellLoop (qty tr) (holdingsQueue s) 0) \<longrightarrow>
      holdingsQueue (processTrade s tr) =
        [shortHolding tr (fst (sellLoop (qty tr) (holdingsQueue s) 0))] \<and>
      holding_qty (shortHolding tr (fst (sellLoop (qty tr) (holdingsQueue s) 0))) =
        - fst (sellLoop (qty tr) (holdingsQueue s) 0)"
  proof
    assume h: "side tr = ''Sell'' \<and> 0 < fst (sellLoop (qty tr) (holdingsQueue s) 0)"
    obtain r q c where loop: "sellLoop (qty tr) (holdingsQueue s) 0 = (r, q, c)"
      by (cases "sellLoop (qty tr) (holdingsQueue s) 0") auto
    with h have rpos: "0 < r" by simp
    with loop have "q = []" by (rule sellLoop_remaining_empties)
    with h rpos show "holdingsQueue (processTrade s tr) =
        [shortHolding tr (fst (sellLoop (qty tr) (holdingsQueue s) 0))] \<and>
      holding_qty (shortHolding tr (fst (sellLoop (qty tr) (holdingsQueue s) 0))) =
        - fst (sellLoop (qty tr) (holdingsQueue s) 0)"
      by (simp add: processTrade_def loop Let_def shortHolding_def)
  qed
  from c1 c2 c3 c4 c5 show ?thesis by blast
qed

theorem gain_quantities_sum_to_covered_quantity_witness:
  "sum_list (map gain_qty (gainsOfSell ''ACME'' (plainTrade ''Sell'' 120 20 (isoDate 2024 7 1))
     [\<lparr>lot_qty = 100, lot_price = 10, priceAUD = 10, lot_date = 1, cost = 1000\<rparr>,
      \<lparr>lot_qty = 50, lot_price = 12, priceAUD = 12, lot_date = 2, cost = 600\<rparr>])) = 120 \<and>
   sum_list (map gain_qty (gainsOfSell ''ACME'' (plainTrade ''Sell'' 50 20 (isoDate 2024 7 1)) []))
     = 0 \<and>
   fst (snd (sellInWindow ''ACME'' (plainTrade ''Sell'' 50 20 (isoDate 2024 7 1)) 50 [] [])) = [] \<and>
   gainsTrade (isoDate 2025 1 1) None ''ACME'' ([], [])
     (plainTrade ''Sell'' 50 20 (isoDate 2024 7 1)) = ([], []) \<and>
   map holding_qty (holdingsQueue (processTrade initialState
     (plainTrade ''Sell'' 50 20 (isoDate 2024 7 1)))) = [- 50]"
proof -
  let ?a = "plainTrade ''Sell'' 120 20 (isoDate 2024 7 1)"
  let ?b = "plainTrade ''Sell'' 50 20 (isoDate 2024 7 1)"
  let ?hs = "[\<lparr>lot_qty = 100, lot_price = 10, priceAUD = 10, lot_date = 1, cost = 1000\<rparr>,
      \<lparr>lot_qty = 50, lot_price = 12, priceAUD = 12, lot_date = 2, cost = 600\<rparr>]"
  note A = gain_quantities_sum_to_covered_quantity
    [of "''ACME''" ?a ?hs "isoDate 2025 1 1" None "[]" initialState]
  note B = gain_quantities_sum_to_covered_quantity
    [of "''ACME''" ?b "[]" "isoDate 2025 1 1" None "[]" initialState]
  have qa: "qty ?a = 120" and qb: "qty ?b = 50" and sb: "side ?b = ''Sell''"
    by (simp_all add: plainTrade_def)
  have "(\<forall>l\<in>set ?hs. 0 < lot_qty l) \<and> 0 \<le> qty ?a" by (simp add: qa)
  from A [THEN conjunct2, THEN conjunct2, THEN conjunct1, THEN mp, OF this]
  have w1: "sum_list (map gain_qty (gainsOfSell ''ACME'' ?a ?hs)) = 120"
    by (simp add: qa)
  have rb: "fst (sellInWindow ''ACME'' ?b 50 [] []) = 50" by (simp add: sellInWindow.simps)
  from B [THEN conjunct1] have w2: "sum_list (map gain_qty (gainsOfSell ''ACME'' ?b [])) = 0"
    by (simp add: qb rb)
  have "0 < fst (sellInWindow ''ACME'' ?b (qty ?b) [] [])" by (simp add: qb rb)
  from B [THEN conjunct2, THEN conjunct1, THEN mp, OF this]
  have w3: "fst (snd (sellInWindow ''ACME'' ?b 50 [] [])) = []" by (simp add: qb)
  have "side ?b = ''Sell'' \<and> inWindow (isoDate 2025 1 1) None ?b"
    by (simp add: sb inWindow_example)
  from B [THEN conjunct2, THEN conjunct2, THEN conjunct2, THEN conjunct1, THEN mp, OF this]
  have w4: "gainsTrade (isoDate 2025 1 1) None ''ACME'' ([], []) ?b = ([], [])"
    by (simp add: qb gainsOfSell_def sellInWindow.simps)
  have l: "fst (sellLoop (qty ?b) (holdingsQueue initialState) 0) = 50"
    by (simp add: qb initialState_def sellLoop.simps)
  then have "side ?b = ''Sell'' \<and> 0 < fst (sellLoop (qty ?b) (holdingsQueue initialState) 0)"
    by (simp add: sb)
  from B [THEN conjunct2, THEN conjunct2, THEN conjunct2, THEN conjunct2, THEN mp, OF this]
  have w5: "map holding_qty (holdingsQueue (processTrade initialState ?b)) = [- 50]"
    by (simp add: l)
  from w1 w2 w3 w4 w5 show ?thesis by simp
qed

text \<open>Claim C3 as stated fails: a sell of 50 inside the window with no open lot emits no
  record, so the quantities emitted sum to 0 and not to 50, and the reporter's holdings
  stay empty.\<close>

theorem gain_quantities_counterexample:
  "sum_list (map gain_qty (snd (gainsReplay (isoDate 2025 1 1) None ''ACME''
      [plainTrade ''Sell'' 50 20 (isoDate 2024 7 1)])))
     \<noteq> qty (plainTrade ''Sell'' 50 20 (isoDate 2024 7 1)) \<and>
   inWindow (isoDate 2025 1 1) None (plainTrade ''Sell'' 50 20 (isoDate 2024 7 1)) \<and>
   fst (gainsReplay (isoDate 2025 1 1) None ''ACME''
      [plainTrade ''Sell'' 50 20 (isoDate 2024 7 1)]) = []"
proof -
  have "gainsReplay (isoDate 2025 1 1) None ''ACME''
      [plainTrade ''Sell'' 50 20 (isoDate 2024 7 1)] = ([], [])"
    using inWindow_example [of "''Sell''" 50 20]
    by (simp add: gainsReplay_def gainsTrade_def sellInWindow.simps)
       (simp add: plainTrade_def)
  then show ?thesis by (simp add: inWindow_example) (simp add: plainTrade_def)
qed

text \<open>
  Claim C5 at a failing input. Financial year 2023; Buy 100 at 10 on 2023-01-01, Sell 50 at
  20 on 2023-06-30 (before the window), Sell 50 at 20 on 2023-08-01 (inside). The sell
  before the window emits no record and halves the quantity of the lot, but leaves its
  cost at 1000: the sell inside the window gets a cost basis of 1000 and a gain of 0. With
  both sells inside the window each gets a cost basis of 500.
\<close>

theorem sell_before_window_keeps_lot_cost:
  "map gain_costBasis
     (snd (gainsReplay (isoDate 2025 1 1) (Some 2023) ''ACME''
        [plainTrade ''Buy'' 100 10 (isoDate 2023 1 1),
         plainTrade ''Sell'' 50 20 (isoDate 2023 6 30),
         plainTrade ''Sell'' 50 20 (isoDate 2023 8 1)])) = [1000] \<and>
   map capitalGainAUD
     (snd (gainsReplay (isoDate 2025 1 1) (Some 2023) ''ACME''
        [plainTrade ''Buy'' 100 10 (isoDate 2023 1 1),
         plainTrade ''Sell'' 50 20 (isoDate 2023 6 30),
         plainTrade ''Sell'' 50 20 (isoDate 2023 8 1)])) = [0] \<and>
   map gain_costBasis
     (snd (gainsReplay (isoDate 2025 1 1) None ''ACME''
        [plainTrade ''Buy'' 100 10 (isoDate 2023 1 1),
         plainTrade ''Sell'' 50 20 (isoDate 2023 6 30),
         plainTrade ''Sell'' 50 20 (isoDate 2023 8 1)])) = [500, 500] \<and>
   map capitalGainAUD
     (snd (gainsReplay (isoDate 2025 1 1) None ''ACME''
        [plainTrade ''Buy'' 100 10 (isoDate 2023 1 1),
         plainTrade ''Sell'' 50 20 (isoDate 2023 6 30),
         plainTrade ''Sell'' 50 20 (isoDate 2023 8 1)])) = [500, 500]"
  by (simp add: gainsReplay_def gainsTrade_def inWindow_def cutoffDateStart_def
      cutoffDateEnd_def plainTrade_def isoDate_def daysFromCivil_def msPerDay_def
      sellInWindow.simps sellOutsideWindow.simps gainForLot_def Let_def)

text \<open>
  Claim C8 at a failing input. A row whose \<open>Filled@Avg Price\<close> field is the text
  \<open>N/A\<close> has no \<open>@\<close>: \<open>parseFilledAvg\<close> throws a TypeError, whatever \<open>parseFloat\<close>
  does, and both report functions end with that exception at this row.
\<close>

theorem parseFilledAvg_without_at_throws:
  "parseFilledAvg pf now (Some ''N/A'') symbol = Inl TypeError \<and>
   capitalGainsTrade pf t now (r\<lparr>FilledAvgPrice := Some ''N/A''\<rparr>) = Inl TypeError \<and>
   mapRows (capitalGainsTrade pf t now) (r\<lparr>FilledAvgPrice := Some ''N/A''\<rparr> # rows)
     = Inl TypeError \<and>
   mapRows (fifoPnLTrade pf now) (r\<lparr>FilledAvgPrice := Some ''N/A''\<rparr> # rows) = Inl TypeError"
  by (simp add: parseFilledAvg_def capitalGainsTrade_def fifoPnLTrade_def)

section \<open>Properties of the synthetic close\<close>












lemma expirySell_fields:
  "side (expirySell symbol info trades) = ''Sell''"
  "qty (expirySell symbol info trades) = remainingHoldings trades"
  "price (expirySell symbol info trades) = 0"
  "amount (expirySell symbol info trades) = 0"
  "commission (expirySell symbol info trades) = 0"
  "fees (expirySell symbol info trades) = 0"
  "amountAUD (expirySell symbol info trades) = 0"
  "commissionAUD (expirySell symbol info trades) = 0"
  "feesAUD (expirySell symbol info trades) = 0"
  "date (expirySell symbol info trades) = expiryDate info"
  "isSynthetic (expirySell symbol info trades)"
  by (simp_all add: expirySell_def syntheticSell_def)











lemma parseOptionsSymbol_SOFI:
  "parseOptionsSymbol (isoDate 2026 1 1) ''SOFI251121C26000'' =
     Some \<lparr>underlying = ''SOFI'', expiryDate = 1763683200000, optionType = ''Call'',
           strikePrice = 26, isExpired = True\<rparr>"
  by (simp add: parseOptionsSymbol_def isUpperAZ_def isDigit_def digitsValue_def newDate_def
      daysFromCivil_def isoDate_def msPerDay_def Let_def)




section \<open>Properties of the conversions\<close>

lemma processTrade_volumes:
  "buyUSD (processTrade s tr) =
     buyUSD s + (if side tr = ''Buy'' \<and> tradeCurrency tr = ''USD'' then amount tr else 0)"
  "buyAUD (processTrade s tr) =
     buyAUD s + (if side tr = ''Buy'' \<and> tradeCurrency tr \<noteq> ''USD'' then amount tr else 0)"
  "sellUSD (processTrade s tr) =
     sellUSD s + (if side tr = ''Sell'' \<and> tradeCurrency tr = ''USD'' then amount tr else 0)"
  "sellAUD (processTrade s tr) =
     sellAUD s + (if side tr = ''Sell'' \<and> tradeCurrency tr \<noteq> ''USD'' then amount tr else 0)"
  by (simp_all add: processTrade_def Let_def split: prod.splits)

lemma foldl_processTrade_volumes:
  "buyUSD (foldl processTrade s ts) = buyUSD s +
     sum_list (map amount (filter (\<lambda>tr. side tr = ''Buy'' \<and> tradeCurrency tr = ''USD'') ts))"
  "buyAUD (foldl processTrade s ts) = buyAUD s +
     sum_list (map amount (filter (\<lambda>tr. side tr = ''Buy'' \<and> tradeCurrency tr \<noteq> ''USD'') ts))"
  "sellUSD (foldl processTrade s ts) = sellUSD s +
     sum_list (map amount (filter (\<lambda>tr. side tr = ''Sell'' \<and> tradeCurrency tr = ''USD'') ts))"
  "sellAUD (foldl processTrade s ts) = sellAUD s +
     sum_list (map amount (filter (\<lambda>tr. side tr = ''Sell'' \<and> tradeCurrency tr \<noteq> ''USD'') ts))"
  by (induction ts arbitrary: s) (simp_all add: processTrade_volumes)

lemma sum_filter_sort_key:
  "sum_list (map f (filter P (sort_key k xs))) = sum_list (map (f :: 'a \<Rightarrow> rat) (filter P xs))"
proof -
  have "mset (map f (filter P (sort_key k xs))) = mset (map f (filter P xs))" by simp
  then show ?thesis by (metis sum_mset_sum_list)
qed

lemma replay_volumes:
  "buyUSD (replay ts) =
     sum_list (map amount (filter (\<lambda>tr. side tr = ''Buy'' \<and> tradeCurrency tr = ''USD'') ts))"
  "buyAUD (replay ts) =
     sum_list (map amount (filter (\<lambda>tr. side tr = ''Buy'' \<and> tradeCurrency tr \<noteq> ''USD'') ts))"
  "sellUSD (replay ts) =
     sum_list (map amount (filter (\<lambda>tr. side tr = ''Sell'' \<and> tradeCurrency tr = ''USD'') ts))"
  "sellAUD (replay ts) =
     sum_list (map amount (filter (\<lambda>tr. side tr = ''Sell'' \<and> tradeCurrency tr \<noteq> ''USD'') ts))"
  by (simp_all add: replay_def foldl_processTrade_volumes sum_filter_sort_key initialState_def)

lemma addExpiredOptionsLosses_cases:
  "addExpiredOptionsLosses now symbol grp = grp \<or>
   addExpiredOptionsLosses now symbol grp = sort_key date grp \<or>
   (\<exists>info. addExpiredOptionsLosses now symbol grp =
      sort_key date grp @ [expirySell symbol info (sort_key date grp)])"
  by (auto simp add: addExpiredOptionsLosses_def Let_def split: option.splits)

lemma addExpired_sum:
  assumes "\<And>symbol info trades. P (expirySell symbol info trades) \<Longrightarrow>
             f (expirySell symbol info trades) = 0"
  shows "sum_list (map f (filter P (addExpiredOptionsLosses now symbol grp))) =
         sum_list (map (f :: trade \<Rightarrow> rat) (filter P grp))"
  using addExpiredOptionsLosses_cases [of now symbol grp] assms
  by (auto simp add: sum_filter_sort_key)

lemma addExpired_volumes:
  "sum_list (map amount (filter (\<lambda>tr. side tr = sd \<and> tradeCurrency tr = ''USD'')
      (addExpiredOptionsLosses now symbol grp))) =
   sum_list (map amount (filter (\<lambda>tr. side tr = sd \<and> tradeCurrency tr = ''USD'') grp))"
  "sum_list (map amount (filter (\<lambda>tr. side tr = sd \<and> tradeCurrency tr \<noteq> ''USD'')
      (addExpiredOptionsLosses now symbol grp))) =
   sum_list (map amount (filter (\<lambda>tr. side tr = sd \<and> tradeCurrency tr \<noteq> ''USD'') grp))"
  by (rule addExpired_sum, simp add: expirySell_fields)+

lemma capitalGainsTrade_fields:
  assumes "capitalGainsTrade pf t now r = Inr tr"
  shows "amountAUD tr = convertCurrency t (amount tr) (market tr) ''AUD'' (date tr)"
    and "commissionAUD tr = convertCurrency t (commission tr) (market tr) ''AUD'' (date tr)"
    and "feesAUD tr = convertCurrency t (fees tr) (market tr) ''AUD'' (date tr)"
    and "date tr = FillTime r" and "market tr = rowMarket r"
  using assms
  by (auto simp add: capitalGainsTrade_def Let_def split: sum.splits prod.splits)

lemma fifoPnLTrade_fields:
  assumes "fifoPnLTrade pf now r = Inr tr"
  shows "side tr = Side r"
    and "tradeCurrency tr = (if rowMarket r = ''US'' then ''USD'' else ''AUD'')"
  using assms
  by (auto simp add: fifoPnLTrade_def tradeCurrency_def split: sum.splits prod.splits)

lemma trades_same_amount:
  assumes "fifoPnLTrade pf now r = Inr ftr" "capitalGainsTrade pf t now r = Inr ctr"
  shows "amount ctr = amount ftr"
  using assms
  by (auto simp add: fifoPnLTrade_def capitalGainsTrade_def Let_def split: sum.splits prod.splits)

text \<open>
  The two conversions. The portfolio summary of a symbol converts at the rate of the
  current date: its buy and sell volumes are the sums of the trade amounts in USD and in
  AUD, each multiplied by the factor for the display currency taken at \<open>now\<close>, and its P&L is the
  realized P&L in the two currencies converted the same way. The capital gains reporter
  converts the amount, commission and fees of each trade to AUD at the rate of the trade's
  own date. For a US buy built from the same row, the summary's volume in AUD is the
  amount times the rate of the current date and the reporter's AUD amount is the amount
  times the rate of the fill date; they differ when the amount is not zero and the two
  rates differ.
\<close>

lemma summary_at_current_rate_gains_at_trade_rate:
  "buyVolume (calculateFIFOPnL t now dc symbol grp) =
     sum_list (map amount (filter (\<lambda>tr. side tr = ''Buy'' \<and> tradeCurrency tr = ''USD'') grp))
       * (if dc = ''USD'' then 1 else getUSDToAUDRate t now)
     + sum_list (map amount (filter (\<lambda>tr. side tr = ''Buy'' \<and> tradeCurrency tr \<noteq> ''USD'') grp))
       * (if dc = ''AUD'' then 1 else 1 / getUSDToAUDRate t now) \<and>
   sellVolume (calculateFIFOPnL t now dc symbol grp) =
     sum_list (map amount (filter (\<lambda>tr. side tr = ''Sell'' \<and> tradeCurrency tr = ''USD'') grp))
       * (if dc = ''USD'' then 1 else getUSDToAUDRate t now)
     + sum_list (map amount (filter (\<lambda>tr. side tr = ''Sell'' \<and> tradeCurrency tr \<noteq> ''USD'') grp))
       * (if dc = ''AUD'' then 1 else 1 / getUSDToAUDRate t now) \<and>
   totalPnL (calculateFIFOPnL t now dc symbol grp) =
     realizedUSD (replay (addExpiredOptionsLosses now symbol grp))
       * (if dc = ''USD'' then 1 else getUSDToAUDRate t now)
     + realizedAUD (replay (addExpiredOptionsLosses now symbol grp))
       * (if dc = ''AUD'' then 1 else 1 / getUSDToAUDRate t now) \<and>
   (capitalGainsTrade pf t now r = Inr ctr \<longrightarrow>
      date ctr = FillTime r \<and>
      amountAUD ctr = convertCurrency t (amount ctr) (market ctr) ''AUD'' (date ctr) \<and>
      commissionAUD ctr = convertCurrency t (commission ctr) (market ctr) ''AUD'' (date ctr) \<and>
      feesAUD ctr = convertCurrency t (fees ctr) (market ctr) ''AUD'' (date ctr) \<and>
      amountAUD ctr = (if market ctr = ''AU'' then amount ctr
                       else amount ctr * getUSDToAUDRate t (date ctr))) \<and>
   (rowMarket r = ''US'' \<and> Side r = ''Buy'' \<and>
    fifoPnLTrade pf now r = Inr ftr \<and> capitalGainsTrade pf t now r = Inr ctr \<longrightarrow>
      buyVolume (calculateFIFOPnL t now ''AUD'' (Symbol r) [ftr]) =
        amount ftr * getUSDToAUDRate t now \<and>
      amountAUD ctr = amount ftr * getUSDToAUDRate t (FillTime r) \<and>
      (amount ftr \<noteq> 0 \<and> getUSDToAUDRate t now \<noteq> getUSDToAUDRate t (FillTime r) \<longrightarrow>
         buyVolume (calculateFIFOPnL t now ''AUD'' (Symbol r) [ftr]) \<noteq> amountAUD ctr))"
proof -
  have bv: "buyVolume (calculateFIFOPnL t now dc symbol grp) =
     sum_list (map amount (filter (\<lambda>tr. side tr = ''Buy'' \<and> tradeCurrency tr = ''USD'') grp))
       * (if dc = ''USD'' then 1 else getUSDToAUDRate t now)
     + sum_list (map amount (filter (\<lambda>tr. side tr = ''Buy'' \<and> tradeCurrency tr \<noteq> ''USD'') grp))
       * (if dc = ''AUD'' then 1 else 1 / getUSDToAUDRate t now)" for dc symbol grp
    by (simp add: calculateFIFOPnL_def summarize_def Let_def replay_volumes addExpired_volumes)
  have sv: "sellVolume (calculateFIFOPnL t now dc symbol grp) =
     sum_list (map amount (filter (\<lambda>tr. side tr = ''Sell'' \<and> tradeCurrency tr = ''USD'') grp))
       * (if dc = ''USD'' then 1 else getUSDToAUDRate t now)
     + sum_list (map amount (filter (\<lambda>tr. side tr = ''Sell'' \<and> tradeCurrency tr \<noteq> ''USD'') grp))
       * (if dc = ''AUD'' then 1 else 1 / getUSDToAUDRate t now)"
    by (simp add: calculateFIFOPnL_def summarize_def Let_def replay_volumes addExpired_volumes)
  have tp: "totalPnL (calculateFIFOPnL t now dc symbol grp) =
     realizedUSD (replay (addExpiredOptionsLosses now symbol grp))
       * (if dc = ''USD'' then 1 else getUSDToAUDRate t now)
     + realizedAUD (replay (addExpiredOptionsLosses now symbol grp))
       * (if dc = ''AUD'' then 1 else 1 / getUSDToAUDRate t now)"
    by (simp add: calculateFIFOPnL_def summarize_def Let_def)
  have cg: "capitalGainsTrade pf t now r = Inr ctr \<longrightarrow>
      date ctr = FillTime r \<and>
      amountAUD ctr = convertCurrency t (amount ctr) (market ctr) ''AUD'' (date ctr) \<and>
      commissionAUD ctr = convertCurrency t (commission ctr) (market ctr) ''AUD'' (date ctr) \<and>
      feesAUD ctr = convertCurrency t (fees ctr) (market ctr) ''AUD'' (date ctr) \<and>
      amountAUD ctr = (if market ctr = ''AU'' then amount ctr
                       else amount ctr * getUSDToAUDRate t (date ctr))"
  proof
    assume h: "capitalGainsTrade pf t now r = Inr ctr"
    note f = capitalGainsTrade_fields [OF h]
    have "convertCurrency t (amount ctr) (market ctr) ''AUD'' (date ctr) =
        (if market ctr = ''AU'' then amount ctr
         else amount ctr * getUSDToAUDRate t (date ctr))"
      by (simp add: convertCurrency_def)
    with f show "date ctr = FillTime r \<and>
      amountAUD ctr = convertCurrency t (amount ctr) (market ctr) ''AUD'' (date ctr) \<and>
      commissionAUD ctr = convertCurrency t (commission ctr) (market ctr) ''AUD'' (date ctr) \<and>
      feesAUD ctr = convertCurrency t (fees ctr) (market ctr) ''AUD'' (date ctr) \<and>
      amountAUD ctr = (if market ctr = ''AU'' then amount ctr
                       else amount ctr * getUSDToAUDRate t (date ctr))"
      by simp
  qed
  have both: "rowMarket r = ''US'' \<and> Side r = ''Buy'' \<and>
    fifoPnLTrade pf now r = Inr ftr \<and> capitalGainsTrade pf t now r = Inr ctr \<longrightarrow>
      buyVolume (calculateFIFOPnL t now ''AUD'' (Symbol r) [ftr]) =
        amount ftr * getUSDToAUDRate t now \<and>
      amountAUD ctr = amount ftr * getUSDToAUDRate t (FillTime r) \<and>
      (amount ftr \<noteq> 0 \<and> getUSDToAUDRate t now \<noteq> getUSDToAUDRate t (FillTime r) \<longrightarrow>
         buyVolume (calculateFIFOPnL t now ''AUD'' (Symbol r) [ftr]) \<noteq> amountAUD ctr)"
  proof
    assume h: "rowMarket r = ''US'' \<and> Side r = ''Buy'' \<and>
      fifoPnLTrade pf now r = Inr ftr \<and> capitalGainsTrade pf t now r = Inr ctr"
    then have ff: "side ftr = ''Buy''" "tradeCurrency ftr = ''USD''"
      using fifoPnLTrade_fields [of pf now r ftr] by simp_all
    have v: "buyVolume (calculateFIFOPnL t now ''AUD'' (Symbol r) [ftr]) =
        amount ftr * getUSDToAUDRate t now"
      unfolding bv by (simp add: ff)
    from h have cf: "date ctr = FillTime r" "market ctr = ''US''" "amount ctr = amount ftr"
      using capitalGainsTrade_fields(4,5) [of pf t now r ctr] trades_same_amount [of pf now r ftr t ctr]
      by simp_all
    from h cg have "amountAUD ctr = (if market ctr = ''AU'' then amount ctr
                       else amount ctr * getUSDToAUDRate t (date ctr))" by blast
    then have a: "amountAUD ctr = amount ftr * getUSDToAUDRate t (FillTime r)"
      by (simp add: cf)
    show "buyVolume (calculateFIFOPnL t now ''AUD'' (Symbol r) [ftr]) =
        amount ftr * getUSDToAUDRate t now \<and>
      amountAUD ctr = amount ftr * getUSDToAUDRate t (FillTime r) \<and>
      (amount ftr \<noteq> 0 \<and> getUSDToAUDRate t now \<noteq> getUSDToAUDRate t (FillTime r) \<longrightarrow>
         buyVolume (calculateFIFOPnL t now ''AUD'' (Symbol r) [ftr]) \<noteq> amountAUD ctr)"
      unfolding v a by simp
  qed
  from bv [of dc symbol grp] sv tp cg both show ?thesis by blast
qed

lemma summary_at_current_rate_gains_at_trade_rate_example:
  "capitalGainsTrade (\<lambda>s. if s = ''10'' then Some 10 else if s = ''25'' then Some 25 else None)
     [19723 \<mapsto> 3 / 2, 20000 \<mapsto> 8 / 5] (20000 * msPerDay)
     \<lparr>Symbol = ''ACME'', Side = ''Buy'', Name = ''Acme'', FilledAvgPrice = Some ''10@25'',
      FillTime = 19723 * msPerDay, Commission = None, Total = None, rowMarket = ''US''\<rparr> =
     Inr \<lparr>side = ''Buy'', qty = 10, price = 25, amount = 250, date = 19723 * msPerDay,
          commission = 0, fees = 0, name = ''Acme'', market = ''US'', originalCurrency = None,
          amountAUD = 375, commissionAUD = 0, feesAUD = 0, isSynthetic = False\<rparr> \<and>
   buyVolume (calculateFIFOPnL [19723 \<mapsto> 3 / 2, 20000 \<mapsto> 8 / 5] (20000 * msPerDay) ''AUD''
     ''ACME''
     [\<lparr>side = ''Buy'', qty = 10, price = 25, amount = 250, date = 19723 * msPerDay,
       commission = 0, fees = 0, name = ''Acme'', market = ''US'',
       originalCurrency = Some ''USD'', amountAUD = 0, commissionAUD = 0, feesAUD = 0,
       isSynthetic = False\<rparr>]) = 400 \<and>
   convertCurrency [19723 \<mapsto> 3 / 2, 20000 \<mapsto> 8 / 5] 250 ''US'' ''AUD'' (19723 * msPerDay)
     = 375"
proof -
  let ?pf = "\<lambda>s. if s = ''10'' then Some 10 else if s = ''25'' then Some (25::rat) else None"
  let ?t = "[19723 \<mapsto> 3 / 2, 20000 \<mapsto> 8 / 5] :: rates"
  let ?now = "20000 * msPerDay"
  let ?r = "\<lparr>Symbol = ''ACME'', Side = ''Buy'', Name = ''Acme'', FilledAvgPrice = Some ''10@25'',
      FillTime = 19723 * msPerDay, Commission = None, Total = None, rowMarket = ''US''\<rparr>"
  let ?ftr = "\<lparr>side = ''Buy'', qty = 10, price = 25, amount = 250, date = 19723 * msPerDay,
       commission = 0, fees = 0, name = ''Acme'', market = ''US'',
       originalCurrency = Some ''USD'', amountAUD = 0, commissionAUD = 0, feesAUD = 0,
       isSynthetic = False\<rparr>"
  let ?ctr = "\<lparr>side = ''Buy'', qty = 10, price = 25, amount = 250, date = 19723 * msPerDay,
          commission = 0, fees = 0, name = ''Acme'', market = ''US'', originalCurrency = None,
          amountAUD = 375, commissionAUD = 0, feesAUD = 0, isSynthetic = False\<rparr>"
  have k: "dateKey (19723 * msPerDay) = 19723" "dateKey (20000 * msPerDay) = 20000"
    by (simp_all add: dateKey_def msPerDay_def)
  have rt: "getUSDToAUDRate ?t (19723 * msPerDay) = 3 / 2" "getUSDToAUDRate ?t ?now = 8 / 5"
    by (simp_all add: getUSDToAUDRate_def k)
  have pfa: "parseFilledAvg ?pf ?now (Some ''10@25'') ''ACME'' = Inr (10, 25)"
    by (simp add: parseFilledAvg_def getMultiplier_def isOption_def parseOptionsSymbol_ACME
        orZero_def)
  have c: "capitalGainsTrade ?pf ?t ?now ?r = Inr ?ctr"
    by (simp add: capitalGainsTrade_def pfa parseFloatOpt_def convertCurrency_def Let_def rt)
  have f: "fifoPnLTrade ?pf ?now ?r = Inr ?ftr"
    by (simp add: fifoPnLTrade_def pfa parseFloatOpt_def)
  have h: "rowMarket ?r = ''US'' \<and> Side ?r = ''Buy'' \<and>
    fifoPnLTrade ?pf ?now ?r = Inr ?ftr \<and> capitalGainsTrade ?pf ?t ?now ?r = Inr ?ctr"
    using c f by simp
  note W = summary_at_current_rate_gains_at_trade_rate
    [of ?t ?now "''AUD''" "''ACME''" "[?ftr]" ?pf ?r ?ctr ?ftr,
      THEN conjunct2, THEN conjunct2, THEN conjunct2, THEN conjunct2, THEN mp, OF h]
  have "buyVolume (calculateFIFOPnL ?t ?now ''AUD'' ''ACME'' [?ftr]) = 400"
    using W [THEN conjunct1] by (simp add: rt)
  moreover have "convertCurrency ?t 250 ''US'' ''AUD'' (19723 * msPerDay) = 375"
    using summary_at_current_rate_gains_at_trade_rate
      [of ?t ?now "''AUD''" "''ACME''" "[?ftr]" ?pf ?r ?ctr ?ftr,
        THEN conjunct2, THEN conjunct2, THEN conjunct2, THEN conjunct1, THEN mp, OF c]
    by simp
  ultimately show ?thesis using c by simp
qed

lemma processTrade_sell_bucket:
  assumes "side tr = ''Sell''"
  shows "realizedUSD (processTrade s tr) =
           realizedUSD s + (if tradeCurrency tr = ''USD'' then realizedPnL tr (holdingsQueue s)
                            else 0)"
    and "realizedAUD (processTrade s tr) =
           realizedAUD s + (if tradeCurrency tr = ''USD'' then 0
                            else realizedPnL tr (holdingsQueue s))"
  using assms
  by (simp_all add: processTrade_def realizedPnL_def Let_def split: prod.splits)

lemma processTrade_buy_bucket:
  assumes "side tr = ''Buy''"
  shows "realizedUSD (processTrade s tr) = realizedUSD s"
    and "realizedAUD (processTrade s tr) = realizedAUD s"
  using assms by (simp_all add: processTrade_def Let_def)

lemma expirySell_currency:
  "originalCurrency (expirySell symbol info trades) = None"
  "tradeCurrency (expirySell symbol info trades) = ''USD''"
  "market (expirySell symbol info trades) =
     (case sampleTrade trades of Some tr \<Rightarrow> market tr | None \<Rightarrow> ''US'')"
  by (simp_all add: expirySell_def syntheticSell_def tradeCurrency_def)

text \<open>
  Claim C7 at a failing input. An option of the Australian market, bought as 5 units at
  952 AUD and left to expire; the rate of the current date is 2. The buy is kept in AUD,
  its original currency. The synthetic sell copies the market of the buy and has no
  original currency, so the engine reads it as USD: the loss of 4760 AUD enters the USD
  bucket, and the summary shows it as -9520 in AUD and as -4760 in USD. With the same lot
  closed by a real sell at 0, which the grouping loop stores in AUD, the summary shows
  -4760 in AUD and -2380 in USD, the conversion from the original currency at the rate of
  the current date that the claim describes.
\<close>

theorem synthetic_close_of_AUD_option_booked_as_USD:
  "market (plainTrade ''Buy'' 5 952 (isoDate 2025 1 1)) = ''AU'' \<and>
   tradeCurrency (plainTrade ''Buy'' 5 952 (isoDate 2025 1 1)) = ''AUD'' \<and>
   addExpiredOptionsLosses (isoDate 2026 1 1) ''SOFI251121C26000''
     [plainTrade ''Buy'' 5 952 (isoDate 2025 1 1)] =
     [plainTrade ''Buy'' 5 952 (isoDate 2025 1 1),
      \<lparr>side = ''Sell'', qty = 5, price = 0, amount = 0, date = 1763683200000,
       commission = 0, fees = 0, name = ''ACME'', market = ''AU'', originalCurrency = None,
       amountAUD = 0, commissionAUD = 0, feesAUD = 0, isSynthetic = True\<rparr>] \<and>
   realizedUSD (replay (addExpiredOptionsLosses (isoDate 2026 1 1) ''SOFI251121C26000''
     [plainTrade ''Buy'' 5 952 (isoDate 2025 1 1)])) = - 4760 \<and>
   realizedAUD (replay (addExpiredOptionsLosses (isoDate 2026 1 1) ''SOFI251121C26000''
     [plainTrade ''Buy'' 5 952 (isoDate 2025 1 1)])) = 0 \<and>
   getUSDToAUDRate [20454 \<mapsto> 2] (isoDate 2026 1 1) = 2 \<and>
   totalPnL (calculateFIFOPnL [20454 \<mapsto> 2] (isoDate 2026 1 1) ''AUD'' ''SOFI251121C26000''
     [plainTrade ''Buy'' 5 952 (isoDate 2025 1 1)]) = - 9520 \<and>
   totalPnL (calculateFIFOPnL [20454 \<mapsto> 2] (isoDate 2026 1 1) ''USD'' ''SOFI251121C26000''
     [plainTrade ''Buy'' 5 952 (isoDate 2025 1 1)]) = - 4760 \<and>
   buyVolume (calculateFIFOPnL [20454 \<mapsto> 2] (isoDate 2026 1 1) ''AUD'' ''SOFI251121C26000''
     [plainTrade ''Buy'' 5 952 (isoDate 2025 1 1)]) = 4760 \<and>
   totalPnL (calculateFIFOPnL [20454 \<mapsto> 2] (isoDate 2026 1 1) ''AUD'' ''SOFI251121C26000''
     [plainTrade ''Buy'' 5 952 (isoDate 2025 1 1),
      plainTrade ''Sell'' 5 0 1763683200000]) = - 4760 \<and>
   totalPnL (calculateFIFOPnL [20454 \<mapsto> 2] (isoDate 2026 1 1) ''USD'' ''SOFI251121C26000''
     [plainTrade ''Buy'' 5 952 (isoDate 2025 1 1),
      plainTrade ''Sell'' 5 0 1763683200000]) = - 2380"
proof -
  let ?now = "isoDate 2026 1 1"
  let ?sym = "''SOFI251121C26000''"
  let ?t = "[20454 \<mapsto> 2] :: rates"
  let ?b = "plainTrade ''Buy'' 5 952 (isoDate 2025 1 1)"
  let ?s = "plainTrade ''Sell'' 5 0 1763683200000"
  let ?syn = "\<lparr>side = ''Sell'', qty = 5, price = 0, amount = 0, date = 1763683200000,
       commission = 0, fees = 0, name = ''ACME'', market = ''AU'', originalCurrency = None,
       amountAUD = 0, commissionAUD = 0, feesAUD = 0, isSynthetic = True\<rparr> :: trade"
  have m: "market ?b = ''AU''" "tradeCurrency ?b = ''AUD''"
    by (simp_all add: plainTrade_def tradeCurrency_def)
  have rem: "remainingHoldings [?b] = 5" "remainingHoldings [?b, ?s] = 0"
    by (simp_all add: remainingHoldings_def plainTrade_def)
  have d: "isoDate 2025 1 1 \<le> 1763683200000"
    by (simp add: isoDate_def daysFromCivil_def msPerDay_def)
  have a: "addExpiredOptionsLosses ?now ?sym [?b] = [?b, ?syn]"
    unfolding addExpiredOptionsLosses_def parseOptionsSymbol_SOFI
    by (simp add: rem expirySell_def sampleTrade_def syntheticSell_def) (simp add: plainTrade_def)
  have srt: "sort_key date [?b, ?s] = [?b, ?s]" using d by (simp add: plainTrade_def)
  have a2: "addExpiredOptionsLosses ?now ?sym [?b, ?s] = [?b, ?s]"
    unfolding addExpiredOptionsLosses_def parseOptionsSymbol_SOFI srt
    by (simp add: rem)
  have r1: "replay [?b, ?syn] =
     \<lparr>holdingsQueue = [], realizedUSD = - 4760, realizedAUD = 0,
      buyUSD = 0, sellUSD = 0, buyAUD = 4760, sellAUD = 0,
      totalBuyAmount = 4760, totalBuyQty = 5\<rparr>"
    using d
    by (simp add: replay_def plainTrade_def processTrade_def tradeCurrency_def initialState_def
        sellLoop.simps Let_def)
  have r2: "replay [?b, ?s] =
     \<lparr>holdingsQueue = [], realizedUSD = 0, realizedAUD = - 4760,
      buyUSD = 0, sellUSD = 0, buyAUD = 4760, sellAUD = 0,
      totalBuyAmount = 4760, totalBuyQty = 5\<rparr>"
    using d
    by (simp add: replay_def plainTrade_def processTrade_def tradeCurrency_def initialState_def
        sellLoop.simps Let_def)
  have k: "dateKey ?now = 20454"
    by (simp add: dateKey_def isoDate_def daysFromCivil_def msPerDay_def)
  have rt: "getUSDToAUDRate ?t ?now = 2" by (simp add: getUSDToAUDRate_def k)
  have p1: "totalPnL (calculateFIFOPnL ?t ?now ''AUD'' ?sym [?b]) = - 9520"
    by (simp add: calculateFIFOPnL_def a r1 summarize_def Let_def rt)
  have p2: "totalPnL (calculateFIFOPnL ?t ?now ''USD'' ?sym [?b]) = - 4760"
    by (simp add: calculateFIFOPnL_def a r1 summarize_def Let_def rt)
  have p3: "buyVolume (calculateFIFOPnL ?t ?now ''AUD'' ?sym [?b]) = 4760"
    by (simp add: calculateFIFOPnL_def a r1 summarize_def Let_def rt)
  have p4: "totalPnL (calculateFIFOPnL ?t ?now ''AUD'' ?sym [?b, ?s]) = - 4760"
    by (simp add: calculateFIFOPnL_def a2 r2 summarize_def Let_def rt)
  have p5: "totalPnL (calculateFIFOPnL ?t ?now ''USD'' ?sym [?b, ?s]) = - 2380"
    by (simp add: calculateFIFOPnL_def a2 r2 summarize_def Let_def rt)
  have u: "realizedUSD (replay (addExpiredOptionsLosses ?now ?sym [?b])) = - 4760"
    "realizedAUD (replay (addExpiredOptionsLosses ?now ?sym [?b])) = 0"
    by (simp_all add: a r1)
  from m a u rt p1 p2 p3 p4 p5 show ?thesis by (simp only: simp_thms)
qed

end
